theory Spec2Isabelle
  imports Complex_Main
begin

section \<open>Waveforms and numpy helpers\<close>

text \<open>
  A waveform is the one-dimensional numpy array of samples that the effects code passes
  around. Samples are real numbers and sample arithmetic is exact; sample rates and sample
  counts are integers. Where a float decides an integer (a delay in samples, a bit depth,
  a rounding to a grid), the computation is rounded to binary64 as the code's is.
\<close>

type_synonym waveform = "real list"


text \<open>
  An exception is its type, its message (what \<^verbatim>\<open>str(e)\<close> shows) and its
  \<^verbatim>\<open>__context__\<close>: the exception that was being handled when it was raised.
  \<open>during handled e\<close> is \<open>e\<close> as it leaves an \<^verbatim>\<open>except\<close> block that handles
  \<open>handled\<close>: the innermost exception of its chain gets \<open>handled\<close> as context.
  \<open>exc_chain\<close> lists the types and messages along the chain.
\<close>

datatype py_exception =
  PyExc (exc_type: string) (exc_msg: string) (exc_context: "py_exception option")

fun during :: "py_exception \<Rightarrow> py_exception \<Rightarrow> py_exception" where
  "during handled (PyExc ty msg None) = PyExc ty msg (Some handled)"
| "during handled (PyExc ty msg (Some c)) = PyExc ty msg (Some (during handled c))"

fun exc_chain :: "py_exception \<Rightarrow> (string \<times> string) list" where
  "exc_chain (PyExc ty msg None) = [(ty, msg)]"
| "exc_chain (PyExc ty msg (Some c)) = (ty, msg) # exc_chain c"

text \<open>\<^verbatim>\<open>int(x)\<close> on a float truncates towards zero.\<close>

definition py_int :: "real \<Rightarrow> int" where
  "py_int x = (if 0 \<le> x then \<lfloor>x\<rfloor> else \<lceil>x\<rceil>)"

text \<open>\<^verbatim>\<open>np.round\<close> rounds halves to the nearest even integer.\<close>

definition np_round :: "real \<Rightarrow> real" where
  "np_round x =
     (let f = \<lfloor>x\<rfloor>; d = x - of_int f
      in of_int (if d < 1 / 2 then f else if 1 / 2 < d then f + 1
                 else if even f then f else f + 1))"

text \<open>
  Rounding to binary64, to nearest with ties to even: a nonzero \<open>x\<close> with
  \<open>2 ^ e \<le> |x| < 2 ^ (e + 1)\<close> goes to the nearest multiple of \<open>2 ^ (e - 52)\<close>.
  The exponent is not bounded (no overflow to infinity, no subnormal numbers). A float
  parameter of a method is the binary64 value of the real number the caller names, so
  parameters are rounded where they enter a computation.
\<close>

definition fl64 :: "real \<Rightarrow> real" where
  "fl64 x =
     (if x = 0 then 0
      else (let e = \<lfloor>log 2 \<bar>x\<bar>\<rfloor>; ulp = power_int 2 (e - 52)
            in np_round (x / ulp) * ulp))"

text \<open>
  A slice bound \<open>i\<close> on a sequence of length \<open>n\<close>: negative bounds count from the
  end, and every bound is clipped to \<open>0..n\<close>.
\<close>

definition slice_index :: "nat \<Rightarrow> int \<Rightarrow> nat" where
  "slice_index n i = (if i < 0 then nat (max 0 (int n + i)) else min n (nat i))"

definition slice_upto :: "int \<Rightarrow> 'a list \<Rightarrow> 'a list" where
  \<comment> \<open>\<^verbatim>\<open>a[:i]\<close>\<close>
  "slice_upto i a = take (slice_index (length a) i) a"

definition zeros_like :: "waveform \<Rightarrow> waveform" where
  "zeros_like a = replicate (length a) 0"

text \<open>
  \<^verbatim>\<open>a[i:] = v\<close>: the value must have the length of the target slice, or length one
  (broadcast); otherwise numpy raises ValueError.
\<close>

definition assign_from :: "int \<Rightarrow> waveform \<Rightarrow> waveform \<Rightarrow> py_exception + waveform" where
  "assign_from i v a =
     (let k = slice_index (length a) i; m = length a - k
      in if length v = m then Inr (take k a @ v)
         else if length v = 1 then Inr (take k a @ replicate m (hd v))
         else Inl (PyExc ''ValueError'' ''could not broadcast input array'' None))"

definition np_add :: "waveform \<Rightarrow> waveform \<Rightarrow> waveform" where
  \<comment> \<open>element-wise sum of two arrays of one length\<close>
  "np_add a b = map2 (+) a b"

definition np_max :: "real list \<Rightarrow> py_exception + real" where
  "np_max xs =
     (if xs = [] then Inl (PyExc ''ValueError'' ''zero-size array to reduction operation maximum'' None)
      else Inr (Max (set xs)))"

text \<open>
  Every effect method has the shape \<^verbatim>\<open>try: ... except Exception: return audio\<close>:
  a failure inside the body gives the input back.
\<close>

definition or_input :: "py_exception + waveform \<Rightarrow> waveform \<Rightarrow> waveform" where
  "or_input body audio = (case body of Inl e \<Rightarrow> audio | Inr r \<Rightarrow> r)"

section \<open>Effect primitives (app/services/voice_effects.py)\<close>

text \<open>
  Pitch shifting and time stretching are librosa calls; they are parameters of the model
  and may raise.
\<close>

record primitives =
  pitch_shift_lib :: "waveform \<Rightarrow> int \<Rightarrow> real \<Rightarrow> py_exception + waveform"
  time_stretch_lib :: "waveform \<Rightarrow> real \<Rightarrow> py_exception + waveform"

definition apply_pitch_shift :: "primitives \<Rightarrow> waveform \<Rightarrow> int \<Rightarrow> real \<Rightarrow> waveform" where
  "apply_pitch_shift P audio sr n_steps = or_input (pitch_shift_lib P audio sr n_steps) audio"

definition apply_speed_change :: "primitives \<Rightarrow> waveform \<Rightarrow> real \<Rightarrow> waveform" where
  "apply_speed_change P audio speed_factor = or_input (time_stretch_lib P audio speed_factor) audio"

text \<open>
  Robot voice in exact arithmetic, which is enough for the order of the stages and for
  intensity 0, where the samples are multiplied by one. The sample rate is assumed nonzero:
  numpy's division by a zero rate gives infinities, which real numbers do not have. Nothing
  in the body raises.
\<close>

definition robot_bit_depth :: "real \<Rightarrow> int" where
  "robot_bit_depth intensity = py_int (8 + (1 - intensity) * 8)"

definition robot_carrier :: "nat \<Rightarrow> int \<Rightarrow> real \<Rightarrow> real list" where
  "robot_carrier len sr intensity =
     (let t = map (\<lambda>n. real n / of_int sr) [0..<len];
          carrier_freq = 30 + intensity * 100
      in map (\<lambda>u. sin (2 * pi * carrier_freq * u)) t)"

definition apply_robot_voice :: "waveform \<Rightarrow> int \<Rightarrow> real \<Rightarrow> waveform" where
  "apply_robot_voice audio sr intensity =
     (let carrier = robot_carrier (length audio) sr intensity;
          robot_audio = map2 (\<lambda>a c. a * (1 + intensity * c)) audio carrier
      in if intensity > 3 / 10 then
           (let bit_depth = robot_bit_depth intensity;
                max_val = power_int 2 (bit_depth - 1)
            in map (\<lambda>x. np_round (x * max_val) / max_val) robot_audio)
         else robot_audio)"

text \<open>
  Robot voice once more, with the arithmetic as a parameter: \<open>rnd\<close> rounds the result
  of every floating-point operation and \<open>sine\<close> is the library sine. With no rounding
  and the exact sine this is \<open>apply_robot_voice\<close>; with binary64 rounding it is the
  method as numpy runs it, element by element:
  \<^verbatim>\<open>t = np.arange(len(audio)) / sr\<close>,
  \<^verbatim>\<open>carrier_freq = 30 + (intensity * 100)\<close>,
  \<^verbatim>\<open>carrier = np.sin(2 * np.pi * carrier_freq * t)\<close>,
  \<^verbatim>\<open>robot_audio = audio * (1 + intensity * carrier)\<close>, and above intensity 0.3
  \<^verbatim>\<open>bit_depth = int(8 + (1 - intensity) * 8)\<close>,
  \<^verbatim>\<open>max_val = 2 ** (bit_depth - 1)\<close>,
  \<^verbatim>\<open>robot_audio = np.round(robot_audio * max_val) / max_val\<close>.
\<close>

definition robot_bit_depth_in :: "(real \<Rightarrow> real) \<Rightarrow> real \<Rightarrow> int" where
  "robot_bit_depth_in rnd intensity = py_int (rnd (8 + rnd (rnd (1 - rnd intensity) * 8)))"

definition robot_modulated_in ::
  "(real \<Rightarrow> real) \<Rightarrow> (real \<Rightarrow> real) \<Rightarrow> real \<Rightarrow> int \<Rightarrow> real \<Rightarrow> nat \<Rightarrow> real" where
  "robot_modulated_in rnd sine a sr intensity n =
     (let t = rnd (real n / rnd (of_int sr));
          carrier_freq = rnd (30 + rnd (rnd intensity * 100));
          carrier = sine (rnd (rnd (rnd (2 * rnd pi) * carrier_freq) * t))
      in rnd (a * rnd (1 + rnd (rnd intensity * carrier))))"

definition robot_quantize_in :: "(real \<Rightarrow> real) \<Rightarrow> int \<Rightarrow> real \<Rightarrow> real" where
  "robot_quantize_in rnd bit_depth x =
     (let max_val = power_int 2 (bit_depth - 1)
      in rnd (np_round (rnd (x * max_val)) / max_val))"

definition robot_voice_in ::
  "(real \<Rightarrow> real) \<Rightarrow> (real \<Rightarrow> real) \<Rightarrow> waveform \<Rightarrow> int \<Rightarrow> real \<Rightarrow> waveform" where
  "robot_voice_in rnd sine audio sr intensity =
     (let robot_audio =
            map (\<lambda>n. robot_modulated_in rnd sine (audio ! n) sr intensity n) [0..<length audio]
      in if rnd intensity > rnd (3 / 10) then
           map (robot_quantize_in rnd (robot_bit_depth_in rnd intensity)) robot_audio
         else robot_audio)"

definition robot_voice_binary64 :: "(real \<Rightarrow> real) \<Rightarrow> waveform \<Rightarrow> int \<Rightarrow> real \<Rightarrow> waveform" where
  "robot_voice_binary64 np_sin audio sr intensity = robot_voice_in fl64 np_sin audio sr intensity"

text \<open>Echo: the body of the \<^verbatim>\<open>try\<close>, then the method.\<close>

definition echo_delay_samples :: "real \<Rightarrow> int \<Rightarrow> int" where
  \<comment> \<open>\<^verbatim>\<open>int(delay * sr)\<close>, the product taken in binary64\<close>
  "echo_delay_samples delay sr = py_int (fl64 (fl64 delay * fl64 (of_int sr)))"

definition echo_body :: "waveform \<Rightarrow> int \<Rightarrow> real \<Rightarrow> real \<Rightarrow> py_exception + waveform" where
  "echo_body audio sr delay decay =
     (let delay_samples = echo_delay_samples delay sr;
          delayed_audio = zeros_like audio
      in case assign_from delay_samples
                (map (\<lambda>x. x * decay) (slice_upto (- delay_samples) audio)) delayed_audio of
           Inl e \<Rightarrow> Inl e
         | Inr delayed_audio \<Rightarrow> Inr (np_add audio delayed_audio))"

definition apply_echo :: "waveform \<Rightarrow> int \<Rightarrow> real \<Rightarrow> real \<Rightarrow> waveform" where
  "apply_echo audio sr delay decay = or_input (echo_body audio sr delay decay) audio"

text \<open>Reverb: the loop over the enumerated delay taps, accumulating into a copy.\<close>

definition reverb_delays :: "real list" where
  "reverb_delays = [3 / 100, 5 / 100, 8 / 100, 13 / 100, 21 / 100, 34 / 100]"

fun reverb_loop ::
  "waveform \<Rightarrow> int \<Rightarrow> real \<Rightarrow> real \<Rightarrow> (nat \<times> real) list \<Rightarrow> waveform \<Rightarrow> py_exception + waveform"
where
  "reverb_loop audio sr room_size damping [] reverb_audio = Inr reverb_audio"
| "reverb_loop audio sr room_size damping ((i, delay) # rest) reverb_audio =
     (let delay_samples = py_int (fl64 (fl64 (fl64 delay * fl64 (of_int sr)) * fl64 room_size))
      in if delay_samples < int (length audio) then
           (let decay_factor = (7 / 10 - damping * (4 / 10)) ^ (i + 1)
            in case assign_from delay_samples
                      (map (\<lambda>x. x * decay_factor) (slice_upto (- delay_samples) audio))
                      (zeros_like audio) of
                 Inl e \<Rightarrow> Inl e
               | Inr delayed \<Rightarrow>
                   reverb_loop audio sr room_size damping rest (np_add reverb_audio delayed))
         else reverb_loop audio sr room_size damping rest reverb_audio)"

definition reverb_body :: "waveform \<Rightarrow> int \<Rightarrow> real \<Rightarrow> real \<Rightarrow> py_exception + waveform" where
  "reverb_body audio sr room_size damping =
     reverb_loop audio sr room_size damping (enumerate 0 reverb_delays) audio"

definition apply_reverb :: "waveform \<Rightarrow> int \<Rightarrow> real \<Rightarrow> real \<Rightarrow> waveform" where
  "apply_reverb audio sr room_size damping = or_input (reverb_body audio sr room_size damping) audio"

text \<open>Peak normalisation.\<close>

definition normalize_body :: "waveform \<Rightarrow> py_exception + waveform" where
  "normalize_body audio =
     (case np_max (map abs audio) of
        Inl e \<Rightarrow> Inl e
      | Inr max_val \<Rightarrow>
          Inr (if max_val > 0 then map (\<lambda>x. x / max_val * (95 / 100)) audio else audio))"

definition normalize_audio :: "waveform \<Rightarrow> waveform" where
  "normalize_audio audio = or_input (normalize_body audio) audio"

section \<open>The effects pipeline (VoiceEffectsProcessor.apply_effects)\<close>

text \<open>
  The effects dictionary maps string keys to numbers and booleans. A boolean used as a
  number is 0 or 1, and a number used as a condition is true unless it is zero.
\<close>

datatype pyval = PyBool bool | PyNum real

type_synonym effects = "string \<rightharpoonup> pyval"

fun truthy :: "pyval \<Rightarrow> bool" where
  "truthy (PyBool b) = b"
| "truthy (PyNum x) = (x \<noteq> 0)"

fun num_of :: "pyval \<Rightarrow> real" where
  "num_of (PyBool b) = (if b then 1 else 0)"
| "num_of (PyNum x) = x"

definition key_true :: "effects \<Rightarrow> string \<Rightarrow> bool" where
  \<comment> \<open>\<^verbatim>\<open>k in effects and effects[k]\<close>\<close>
  "key_true effects k = (case effects k of None \<Rightarrow> False | Some v \<Rightarrow> truthy v)"

definition key_differs :: "effects \<Rightarrow> string \<Rightarrow> real \<Rightarrow> bool" where
  \<comment> \<open>\<^verbatim>\<open>k in effects and effects[k] != c\<close>\<close>
  "key_differs effects k c = (case effects k of None \<Rightarrow> False | Some v \<Rightarrow> num_of v \<noteq> c)"

definition get_num :: "effects \<Rightarrow> string \<Rightarrow> real \<Rightarrow> real" where
  \<comment> \<open>\<^verbatim>\<open>effects.get(k, d)\<close>, read as a number\<close>
  "get_num effects k d = (case effects k of None \<Rightarrow> d | Some v \<Rightarrow> num_of v)"

text \<open>The chain of guarded stages between loading and saving.\<close>

definition process_effects :: "primitives \<Rightarrow> waveform \<Rightarrow> int \<Rightarrow> effects \<Rightarrow> waveform" where
  "process_effects P audio_data sample_rate effects =
     (let processed_audio = audio_data;
          processed_audio =
            (if key_differs effects ''pitch_shift'' 0
             then apply_pitch_shift P processed_audio sample_rate (get_num effects ''pitch_shift'' 0)
             else processed_audio);
          processed_audio =
            (if key_differs effects ''speed_change'' 1
             then apply_speed_change P processed_audio (get_num effects ''speed_change'' 1)
             else processed_audio);
          processed_audio =
            (if key_true effects ''robot_voice''
             then apply_robot_voice processed_audio sample_rate
                    (get_num effects ''robot_intensity'' (1 / 2))
             else processed_audio);
          processed_audio =
            (if key_true effects ''echo''
             then apply_echo processed_audio sample_rate
                    (get_num effects ''echo_delay'' (3 / 10)) (get_num effects ''echo_decay'' (1 / 2))
             else processed_audio);
          processed_audio =
            (if key_true effects ''reverb''
             then apply_reverb processed_audio sample_rate
                    (get_num effects ''reverb_room_size'' (1 / 2))
                    (get_num effects ''reverb_damping'' (1 / 2))
             else processed_audio);
          processed_audio =
            (if key_true effects ''normalize'' then normalize_audio processed_audio
             else processed_audio)
      in processed_audio)"

section \<open>Decoding (load_audio and load_audio_safe)\<close>

text \<open>
  The decoders are library calls and parameters of the model: \<^verbatim>\<open>librosa.load\<close> with
  its \<^verbatim>\<open>sr\<close> and \<^verbatim>\<open>mono\<close> arguments, \<^verbatim>\<open>AudioSegment.from_file\<close>,
  \<^verbatim>\<open>AudioSegment.set_channels\<close> and \<^verbatim>\<open>librosa.resample\<close>. An exception raised
  while the primary decoder's exception is being handled has that exception at the end of
  its context chain.
\<close>

record audio_segment =
  channels :: nat
  sample_width :: nat
  frame_rate :: int
  samples :: "int list"

record decoders =
  librosa_load :: "string \<Rightarrow> int option \<Rightarrow> bool \<Rightarrow> py_exception + waveform \<times> int"
  from_file :: "string \<Rightarrow> py_exception + audio_segment"
  set_channels :: "nat \<Rightarrow> audio_segment \<Rightarrow> audio_segment"
  resample :: "waveform \<Rightarrow> int \<Rightarrow> int \<Rightarrow> py_exception + waveform"

definition load_audio :: "decoders \<Rightarrow> string \<Rightarrow> py_exception + waveform \<times> int" where
  "load_audio D file_path =
     (case librosa_load D file_path None True of
        Inr (audio_data, sample_rate) \<Rightarrow> Inr (audio_data, sample_rate)
      | Inl e \<Rightarrow>
          (case from_file D file_path of
             Inl e2 \<Rightarrow> Inl (during e e2)
           | Inr audio_segment \<Rightarrow>
               (let audio_segment = set_channels D 1 audio_segment;
                    samples = map real_of_int (samples audio_segment);
                    samples =
                      (if sample_width audio_segment = 2 then map (\<lambda>x. x / 32768) samples
                       else map (\<lambda>x. x / 2147483648) samples)
                in Inr (samples, frame_rate audio_segment))))"

text \<open>
  \<^verbatim>\<open>audio.reshape((-1, 2)).mean(axis=1)\<close>: the mean of each pair; an odd number of
  samples cannot be reshaped.
\<close>

fun pair_means :: "waveform \<Rightarrow> py_exception + waveform" where
  "pair_means [] = Inr []"
| "pair_means [x] = Inl (PyExc ''ValueError'' ''cannot reshape array'' None)"
| "pair_means (x # y # rest) =
     (case pair_means rest of Inl e \<Rightarrow> Inl e | Inr ms \<Rightarrow> Inr ((x + y) / 2 # ms))"

definition safe_samples :: "audio_segment \<Rightarrow> py_exception + waveform" where
  \<comment> \<open>conversion to floats, normalisation to [-1, 1] and the stereo case\<close>
  "safe_samples audio_segment =
     (let audio = map real_of_int (samples audio_segment);
          audio =
            (if sample_width audio_segment = 2 then map (\<lambda>x. x / 32768) audio
             else if sample_width audio_segment = 4 then map (\<lambda>x. x / 2147483648) audio
             else audio)
      in if channels audio_segment = 2 then pair_means audio else Inr audio)"

definition safe_fallback ::
  "decoders \<Rightarrow> string \<Rightarrow> int option \<Rightarrow> py_exception + waveform \<times> int" where
  \<comment> \<open>the inner \<^verbatim>\<open>try\<close> of load_audio_safe\<close>
  "safe_fallback D audio_path target_sr =
     (case from_file D audio_path of
        Inl e \<Rightarrow> Inl e
      | Inr audio_segment \<Rightarrow>
          (case safe_samples audio_segment of
                Inl e \<Rightarrow> Inl e
              | Inr audio \<Rightarrow>
                  (let sr = frame_rate audio_segment
                   in case target_sr of
                        None \<Rightarrow> Inr (audio, sr)
                      | Some t \<Rightarrow>
                          if t \<noteq> 0 \<and> sr \<noteq> t then
                            (case resample D audio sr t of
                               Inl e \<Rightarrow> Inl e
                             | Inr audio \<Rightarrow> Inr (audio, t))
                          else Inr (audio, sr))))"

definition load_audio_safe ::
  "decoders \<Rightarrow> string \<Rightarrow> int option \<Rightarrow> py_exception + waveform \<times> int" where
  "load_audio_safe D audio_path target_sr =
     (case librosa_load D audio_path target_sr True of
        Inr (audio, sr) \<Rightarrow> Inr (audio, sr)
      | Inl e1 \<Rightarrow>
          (case safe_fallback D audio_path target_sr of
             Inr r \<Rightarrow> Inr r
           | Inl e2 \<Rightarrow>
               Inl (PyExc ''Exception'' (''Cannot load audio file: '' @ exc_msg e2)
                      (Some (during e1 e2)))))"

text \<open>
  apply_effects: load, run the chain, save. Saving is a parameter; a failure of loading
  or saving is logged and raised again.
\<close>

definition apply_effects ::
  "decoders \<Rightarrow> primitives \<Rightarrow> (waveform \<Rightarrow> int \<Rightarrow> string \<Rightarrow> py_exception + string)
     \<Rightarrow> string \<Rightarrow> effects \<Rightarrow> string \<Rightarrow> py_exception + string" where
  "apply_effects D P save_processed_audio audio_file_path effects output_format =
     (case load_audio D audio_file_path of
        Inl e \<Rightarrow> Inl e
      | Inr (audio_data, sample_rate) \<Rightarrow>
          save_processed_audio (process_effects P audio_data sample_rate effects)
            sample_rate output_format)"

section \<open>The canonical stage order\<close>

text \<open>
  The stages by name, the order in which the specification lists them, when the
  configuration enables one, and the primitive each one runs. \<open>stage_body\<close> is the
  body of the primitive's \<^verbatim>\<open>try\<close> block, whose failure the primitive absorbs.
\<close>

datatype stage = PitchShift | SpeedChange | RobotVoice | Echo | Reverb | Normalize

definition canonical_order :: "stage list" where
  "canonical_order = [PitchShift, SpeedChange, RobotVoice, Echo, Reverb, Normalize]"

fun stage_enabled :: "effects \<Rightarrow> stage \<Rightarrow> bool" where
  "stage_enabled effects PitchShift = key_differs effects ''pitch_shift'' 0"
| "stage_enabled effects SpeedChange = key_differs effects ''speed_change'' 1"
| "stage_enabled effects RobotVoice = key_true effects ''robot_voice''"
| "stage_enabled effects Echo = key_true effects ''echo''"
| "stage_enabled effects Reverb = key_true effects ''reverb''"
| "stage_enabled effects Normalize = key_true effects ''normalize''"

fun stage_body ::
  "primitives \<Rightarrow> int \<Rightarrow> effects \<Rightarrow> stage \<Rightarrow> waveform \<Rightarrow> py_exception + waveform" where
  "stage_body P sr effects PitchShift a = pitch_shift_lib P a sr (get_num effects ''pitch_shift'' 0)"
| "stage_body P sr effects SpeedChange a = time_stretch_lib P a (get_num effects ''speed_change'' 1)"
| "stage_body P sr effects RobotVoice a =
     Inr (apply_robot_voice a sr (get_num effects ''robot_intensity'' (1 / 2)))"
| "stage_body P sr effects Echo a =
     echo_body a sr (get_num effects ''echo_delay'' (3 / 10)) (get_num effects ''echo_decay'' (1 / 2))"
| "stage_body P sr effects Reverb a =
     reverb_body a sr (get_num effects ''reverb_room_size'' (1 / 2))
       (get_num effects ''reverb_damping'' (1 / 2))"
| "stage_body P sr effects Normalize a = normalize_body a"

fun stage_primitive :: "primitives \<Rightarrow> int \<Rightarrow> effects \<Rightarrow> stage \<Rightarrow> waveform \<Rightarrow> waveform" where
  "stage_primitive P sr effects PitchShift a =
     apply_pitch_shift P a sr (get_num effects ''pitch_shift'' 0)"
| "stage_primitive P sr effects SpeedChange a =
     apply_speed_change P a (get_num effects ''speed_change'' 1)"
| "stage_primitive P sr effects RobotVoice a =
     apply_robot_voice a sr (get_num effects ''robot_intensity'' (1 / 2))"
| "stage_primitive P sr effects Echo a =
     apply_echo a sr (get_num effects ''echo_delay'' (3 / 10)) (get_num effects ''echo_decay'' (1 / 2))"
| "stage_primitive P sr effects Reverb a =
     apply_reverb a sr (get_num effects ''reverb_room_size'' (1 / 2))
       (get_num effects ''reverb_damping'' (1 / 2))"
| "stage_primitive P sr effects Normalize a = normalize_audio a"

definition compose_enabled :: "primitives \<Rightarrow> int \<Rightarrow> effects \<Rightarrow> stage list \<Rightarrow> waveform \<Rightarrow> waveform" where
  \<comment> \<open>the enabled primitives of a list of stages, applied from left to right\<close>
  "compose_enabled P sr effects stages a =
     fold (stage_primitive P sr effects) (filter (stage_enabled effects) stages) a"

section \<open>The HTTP endpoint (app/api/voice_effects.py, apply_voice_effects)\<close>

record request =
  filename :: string
  pitch_shift :: real
  speed_change :: real
  robot_voice :: bool
  robot_intensity :: real
  echo :: bool
  echo_delay :: real
  echo_decay :: real
  reverb :: bool
  reverb_room_size :: real
  reverb_damping :: real
  normalize_flag :: bool
  output_format :: string

datatype http_exception = HTTPException (status_code: nat) (detail: string)

text \<open>The validation block: the first failing check raises.\<close>

definition validate_request :: "request \<Rightarrow> http_exception option" where
  "validate_request r =
     (if filename r = [] then Some (HTTPException 400 ''No audio file provided'')
      else if \<not> (- 12 \<le> pitch_shift r \<and> pitch_shift r \<le> 12) then
        Some (HTTPException 400 ''Pitch shift must be between -12 and +12 semitones'')
      else if \<not> (1 / 4 \<le> speed_change r \<and> speed_change r \<le> 4) then
        Some (HTTPException 400 ''Speed change must be between 0.25 and 4.0'')
      else if \<not> (0 \<le> robot_intensity r \<and> robot_intensity r \<le> 1) then
        Some (HTTPException 400 ''Robot intensity must be between 0.0 and 1.0'')
      else if \<not> (1 / 10 \<le> echo_delay r \<and> echo_delay r \<le> 2) then
        Some (HTTPException 400 ''Echo delay must be between 0.1 and 2.0 seconds'')
      else if \<not> (1 / 10 \<le> echo_decay r \<and> echo_decay r \<le> 9 / 10) then
        Some (HTTPException 400 ''Echo decay must be between 0.1 and 0.9'')
      else if \<not> (1 / 10 \<le> reverb_room_size r \<and> reverb_room_size r \<le> 1) then
        Some (HTTPException 400 ''Reverb room size must be between 0.1 and 1.0'')
      else if \<not> (1 / 10 \<le> reverb_damping r \<and> reverb_damping r \<le> 1) then
        Some (HTTPException 400 ''Reverb damping must be between 0.1 and 1.0'')
      else if output_format r \<notin> set [''wav'', ''mp3'', ''ogg'', ''flac''] then
        Some (HTTPException 400 ''Output format must be wav, mp3, ogg, or flac'')
      else None)"

definition effects_of_request :: "request \<Rightarrow> effects" where
  "effects_of_request r =
     [''pitch_shift'' \<mapsto> PyNum (pitch_shift r),
      ''speed_change'' \<mapsto> PyNum (speed_change r),
      ''robot_voice'' \<mapsto> PyBool (robot_voice r),
      ''robot_intensity'' \<mapsto> PyNum (robot_intensity r),
      ''echo'' \<mapsto> PyBool (echo r),
      ''echo_delay'' \<mapsto> PyNum (echo_delay r),
      ''echo_decay'' \<mapsto> PyNum (echo_decay r),
      ''reverb'' \<mapsto> PyBool (reverb r),
      ''reverb_room_size'' \<mapsto> PyNum (reverb_room_size r),
      ''reverb_damping'' \<mapsto> PyNum (reverb_damping r),
      ''normalize'' \<mapsto> PyBool (normalize_flag r)]"

text \<open>
  The response: the path of the processed file and the \<^verbatim>\<open>X-Effects-Applied\<close>
  header, which is the effects dictionary as requested. The processor is
  \<open>apply_effects\<close> with its collaborators; the uploaded bytes reach it through the
  temporary file \<open>temp_input\<close>.
\<close>

record response =
  output_path :: string
  effects_applied :: effects

definition apply_voice_effects ::
  "(string \<Rightarrow> effects \<Rightarrow> string \<Rightarrow> py_exception + string) \<Rightarrow> string \<Rightarrow> request
     \<Rightarrow> http_exception + response" where
  "apply_voice_effects processor temp_input r =
     (case validate_request r of
        Some e \<Rightarrow> Inl e
      | None \<Rightarrow>
          (let effects = effects_of_request r
           in case processor temp_input effects (output_format r) of
                Inl e \<Rightarrow> Inl (HTTPException 500 (''Failed to process audio: '' @ exc_msg e))
              | Inr path \<Rightarrow> Inr \<lparr>output_path = path, effects_applied = effects\<rparr>))"

section \<open>Dynamic-range compression (app/utils/audio_processing.py)\<close>

text \<open>
  \<^verbatim>\<open>np.where(np.abs(audio) > threshold,
           np.sign(audio) * (threshold + (np.abs(audio) - threshold) / ratio),
           audio)\<close>
  applied element by element.
\<close>

definition compress_sample :: "real \<Rightarrow> real \<Rightarrow> real \<Rightarrow> real" where
  "compress_sample threshold ratio x =
     (if \<bar>x\<bar> > threshold then sgn x * (threshold + (\<bar>x\<bar> - threshold) / ratio) else x)"

definition apply_compression :: "waveform \<Rightarrow> real \<Rightarrow> real \<Rightarrow> waveform" where
  "apply_compression audio threshold ratio = map (compress_sample threshold ratio) audio"

section \<open>Reference formulas of the specification\<close>

text \<open>
  Echo as the specification words it: the delay in samples is \<open>delay_s * sr\<close> rounded
  to the nearest integer.
\<close>

definition echo_spec :: "waveform \<Rightarrow> int \<Rightarrow> real \<Rightarrow> real \<Rightarrow> nat \<Rightarrow> real" where
  "echo_spec w sr delay_s decay n =
     (let d = nat (round (delay_s * of_int sr))
      in if d \<le> n then w ! n + decay * w ! (n - d) else w ! n)"

text \<open>The maximum absolute sample of a non-empty waveform.\<close>

definition peak :: "waveform \<Rightarrow> real" where
  "peak w = Max (set (map abs w))"

text \<open>
  Robot voice as the specification words it: ring modulation, then, above intensity 0.3,
  quantisation to \<open>8 + round((1 - intensity) * 8)\<close> bits. \<open>quantize bits\<close> rounds
  to the grid of step \<open>2 ^ (1 - bits)\<close>.
\<close>

definition quantize :: "int \<Rightarrow> real \<Rightarrow> real" where
  "quantize bits x = np_round (x * power_int 2 (bits - 1)) / power_int 2 (bits - 1)"

definition robot_voice_spec :: "waveform \<Rightarrow> int \<Rightarrow> real \<Rightarrow> nat \<Rightarrow> real" where
  "robot_voice_spec w sr intensity n =
     (let f_c = 30 + intensity * 100;
          m = w ! n * (1 + intensity * sin (2 * pi * f_c * real n / of_int sr))
      in if intensity > 3 / 10 then quantize (8 + round ((1 - intensity) * 8)) m else m)"

section \<open>Sample collaborators and requests\<close>

text \<open>
  Library primitives that always raise, a library sine, decoders that yield a three-sample waveform at
  22050 Hz, a save function that returns a path, and a request that asks for a pitch
  shift of five semitones and nothing else.
\<close>

definition failing_primitives :: primitives where
  "failing_primitives =
     \<lparr>pitch_shift_lib = (\<lambda>a sr n. Inl (PyExc ''ParameterError'' ''pitch shift failed'' None)),
      time_stretch_lib = (\<lambda>a r. Inl (PyExc ''ParameterError'' ''time stretch failed'' None))\<rparr>"

definition sample_sin :: "real \<Rightarrow> real" where
  \<comment> \<open>a correctly rounded sine\<close>
  "sample_sin x = fl64 (sin x)"

definition sample_decoders :: decoders where
  "sample_decoders =
     \<lparr>librosa_load = (\<lambda>p sr mono. Inr ([1, 2, 3], 22050)),
      from_file = (\<lambda>p. Inl (PyExc ''CouldntDecodeError'' ''decoding failed'' None)),
      set_channels = (\<lambda>n seg. seg\<lparr>channels := n\<rparr>),
      resample = (\<lambda>a orig_sr target_sr. Inr a)\<rparr>"

definition sample_save :: "waveform \<Rightarrow> int \<Rightarrow> string \<Rightarrow> py_exception + string" where
  "sample_save a sr fmt = Inr (''/tmp/voice_effect_12345.'' @ fmt)"

definition sample_request :: request where
  "sample_request =
     \<lparr>filename = ''in.wav'', pitch_shift = 5, speed_change = 1, robot_voice = False,
      robot_intensity = 1 / 2, echo = False, echo_delay = 3 / 10, echo_decay = 1 / 2,
      reverb = False, reverb_room_size = 1 / 2, reverb_damping = 1 / 2,
      normalize_flag = False, output_format = ''wav''\<rparr>"

definition broken_decoders :: decoders where
  \<comment> \<open>both decoders raise\<close>
  "broken_decoders =
     sample_decoders\<lparr>librosa_load :=
        (\<lambda>p sr mono. Inl (PyExc ''NoBackendError'' ''primary decoder failed'' None))\<rparr>"

definition fallback_decoders :: decoders where
  \<comment> \<open>the primary raises; the fallback reads two 16-bit mono samples at 44100 Hz\<close>
  "fallback_decoders =
     \<lparr>librosa_load = (\<lambda>p sr mono. Inl (PyExc ''NoBackendError'' ''primary decoder failed'' None)),
      from_file = (\<lambda>p. Inr \<lparr>channels = 1, sample_width = 2, frame_rate = 44100,
                              samples = [16384, - 16384]\<rparr>),
      set_channels = (\<lambda>n seg. seg\<lparr>channels := n\<rparr>),
      resample = (\<lambda>a orig_sr target_sr. Inr (take 1 a))\<rparr>"

section \<open>The validation order of the specification\<close>

text \<open>
  The range table in the order the specification fixes: each entry is a constraint on
  the request and the message that reports its violation. \<open>first_violation\<close> is the
  message of the first constraint that fails, if any.
\<close>

definition range_checks :: "((request \<Rightarrow> bool) \<times> string) list" where
  "range_checks =
     [(\<lambda>r. filename r \<noteq> [], ''No audio file provided''),
      (\<lambda>r. - 12 \<le> pitch_shift r \<and> pitch_shift r \<le> 12,
         ''Pitch shift must be between -12 and +12 semitones''),
      (\<lambda>r. 1 / 4 \<le> speed_change r \<and> speed_change r \<le> 4,
         ''Speed change must be between 0.25 and 4.0''),
      (\<lambda>r. 0 \<le> robot_intensity r \<and> robot_intensity r \<le> 1,
         ''Robot intensity must be between 0.0 and 1.0''),
      (\<lambda>r. 1 / 10 \<le> echo_delay r \<and> echo_delay r \<le> 2,
         ''Echo delay must be between 0.1 and 2.0 seconds''),
      (\<lambda>r. 1 / 10 \<le> echo_decay r \<and> echo_decay r \<le> 9 / 10,
         ''Echo decay must be between 0.1 and 0.9''),
      (\<lambda>r. 1 / 10 \<le> reverb_room_size r \<and> reverb_room_size r \<le> 1,
         ''Reverb room size must be between 0.1 and 1.0''),
      (\<lambda>r. 1 / 10 \<le> reverb_damping r \<and> reverb_damping r \<le> 1,
         ''Reverb damping must be between 0.1 and 1.0''),
      (\<lambda>r. output_format r \<in> set [''wav'', ''mp3'', ''ogg'', ''flac''],
         ''Output format must be wav, mp3, ogg, or flac'')]"

definition first_violation :: "request \<Rightarrow> string option" where
  "first_violation r = map_option snd (find (\<lambda>c. \<not> fst c r) range_checks)"

section \<open>Properties of compression\<close>

lemma compress_sample_below:
  "\<bar>x\<bar> \<le> threshold \<Longrightarrow> compress_sample threshold ratio x = x"
  by (simp add: compress_sample_def)

lemma compress_sample_gain_pos:
  fixes threshold ratio x :: real
  assumes "0 < threshold" "1 \<le> ratio" "threshold < \<bar>x\<bar>"
  shows "0 < threshold + (\<bar>x\<bar> - threshold) / ratio"
proof -
  have "0 \<le> \<bar>x\<bar> - threshold" using assms(3) by linarith
  moreover have "0 \<le> ratio" using assms(2) by linarith
  ultimately have "0 \<le> (\<bar>x\<bar> - threshold) / ratio" by (rule divide_nonneg_nonneg)
  then show ?thesis using assms(1) by linarith
qed

lemma compress_sample_sgn:
  assumes "0 < threshold" "1 \<le> ratio"
  shows "sgn (compress_sample threshold ratio x) = sgn x"
proof (cases "threshold < \<bar>x\<bar>")
  case True
  then have "0 < threshold + (\<bar>x\<bar> - threshold) / ratio"
    using assms by (rule compress_sample_gain_pos[rotated 2])
  then show ?thesis using True by (simp add: compress_sample_def sgn_mult)
next
  case False
  then show ?thesis by (simp add: compress_sample_def)
qed

lemma compress_sample_abs:
  assumes "0 < threshold" "1 \<le> ratio"
  shows "\<bar>compress_sample threshold ratio x\<bar> \<le> \<bar>x\<bar>"
proof (cases "threshold < \<bar>x\<bar>")
  case True
  have pos: "0 < threshold + (\<bar>x\<bar> - threshold) / ratio"
    using True assms by (rule compress_sample_gain_pos[rotated 2])
  have "(\<bar>x\<bar> - threshold) / ratio \<le> \<bar>x\<bar> - threshold"
    using True assms by (simp add: divide_le_eq mult_le_cancel_left1)
  moreover have "x \<noteq> 0" using True assms by auto
  ultimately show ?thesis
    using True pos by (simp add: compress_sample_def abs_mult)
next
  case False
  then show ?thesis by (simp add: compress_sample_def)
qed

text \<open>
  C10. For a positive threshold and a ratio of at least one, compression keeps the length
  of the waveform, preserves the sign of every sample, never increases a sample's
  magnitude, and leaves every sample whose magnitude is at most the threshold unchanged.
\<close>

theorem apply_compression_sound:
  assumes "0 < threshold" and "1 \<le> ratio" and "n < length w"
  shows "length (apply_compression w threshold ratio) = length w
       \<and> sgn (apply_compression w threshold ratio ! n) = sgn (w ! n)
       \<and> \<bar>apply_compression w threshold ratio ! n\<bar> \<le> \<bar>w ! n\<bar>
       \<and> (\<bar>w ! n\<bar> \<le> threshold \<longrightarrow> apply_compression w threshold ratio ! n = w ! n)"
  using assms
  by (simp add: apply_compression_def compress_sample_sgn compress_sample_abs
      compress_sample_below)

theorem apply_compression_sound_witness:
  "apply_compression [2, - 1, 1 / 4] (1 / 2) 4 ! 0 = 7 / 8
   \<and> sgn (apply_compression [2, - 1, 1 / 4] (1 / 2) 4 ! 0) = 1
   \<and> \<bar>apply_compression [2, - 1, 1 / 4] (1 / 2) 4 ! 0\<bar> \<le> 2"
  using apply_compression_sound [of "1 / 2" 4 0 "[2, - 1, 1 / 4]"]
  by (simp add: apply_compression_def compress_sample_def)

section \<open>Properties of binary64 rounding\<close>

lemma floor_log2_binade:
  fixes x :: real
  assumes "power_int 2 k \<le> \<bar>x\<bar>" and "\<bar>x\<bar> < 2 * power_int 2 k"
  shows "\<lfloor>log 2 \<bar>x\<bar>\<rfloor> = k"
proof -
  have pos: "0 < \<bar>x\<bar>" using assms(1) zero_less_power_int[of "2::real" k] by linarith
  have p1: "(2::real) powr real_of_int k = power_int 2 k"
    by (rule powr_real_of_int') simp_all
  have p2: "(2::real) powr real_of_int (k + 1) = 2 * power_int 2 k"
    using powr_real_of_int'[of "2::real" "k + 1"] by (simp add: power_int_add)
  show ?thesis
    using assms pos p1 p2 floor_log_eq_powr_iff[of "\<bar>x\<bar>" 2 k] by simp
qed

lemma fl64_binade:
  fixes x :: real
  assumes "power_int 2 k \<le> \<bar>x\<bar>" and "\<bar>x\<bar> < 2 * power_int 2 k"
  shows "fl64 x = np_round (x / power_int 2 (k - 52)) * power_int 2 (k - 52)"
proof -
  have "0 < \<bar>x\<bar>" using assms(1) zero_less_power_int[of "2::real" k] by linarith
  then have "x \<noteq> 0" by simp
  then show ?thesis by (simp add: fl64_def Let_def floor_log2_binade[OF assms])
qed

lemma fl64_0 [simp]: "fl64 0 = 0"
  by (simp add: fl64_def)


lemma np_round_cases: "np_round y = of_int \<lfloor>y\<rfloor> \<or> (np_round y = of_int \<lfloor>y\<rfloor> + 1 \<and> of_int \<lfloor>y\<rfloor> < y)"
  by (auto simp: np_round_def Let_def)

lemma np_round_of_int [simp]: "np_round (of_int k) = of_int k"
  by (simp add: np_round_def)

lemma np_round_le_int:
  assumes "y \<le> of_int K"
  shows "np_round y \<le> of_int K"
proof -
  have fl: "\<lfloor>y\<rfloor> \<le> K" using assms by (simp add: floor_le_iff)
  consider "np_round y = of_int \<lfloor>y\<rfloor>" | "np_round y = of_int \<lfloor>y\<rfloor> + 1" "of_int \<lfloor>y\<rfloor> < y"
    using np_round_cases by blast
  then show ?thesis
  proof cases
    case 1
    then show ?thesis using fl by simp
  next
    case 2
    then have "of_int \<lfloor>y\<rfloor> < (of_int K :: real)" using assms by linarith
    then have "\<lfloor>y\<rfloor> < K" by simp
    then have "\<lfloor>y\<rfloor> + 1 \<le> K" by linarith
    then have "(of_int (\<lfloor>y\<rfloor> + 1) :: real) \<le> of_int K" by (simp only: of_int_le_iff)
    then show ?thesis using 2(1) by simp
  qed
qed

lemma np_round_ge_int:
  assumes "of_int K \<le> y"
  shows "of_int K \<le> np_round y"
proof -
  have "K \<le> \<lfloor>y\<rfloor>" using assms by (simp add: le_floor_iff)
  then have "(of_int K :: real) \<le> of_int \<lfloor>y\<rfloor>" by simp
  then show ?thesis using np_round_cases[of y] by linarith
qed

lemma binade_bounds:
  fixes x :: real
  assumes "0 < x"
  shows "power_int 2 \<lfloor>log 2 x\<rfloor> \<le> x \<and> x < 2 * power_int 2 \<lfloor>log 2 x\<rfloor>"
proof -
  have p1: "(2::real) powr real_of_int k = power_int 2 k" for k
    by (rule powr_real_of_int') simp_all
  have p2: "(2::real) powr real_of_int (k + 1) = 2 * power_int 2 k" for k
    using powr_real_of_int'[of "2::real" "k + 1"] by (simp add: power_int_add)
  show ?thesis
    using assms p1 p2 floor_log_eq_powr_iff[of x 2 "\<lfloor>log 2 x\<rfloor>"] by simp
qed

lemma fl64_pos_unfold:
  fixes x :: real
  assumes "0 < x"
  shows "fl64 x = np_round (x / power_int 2 (\<lfloor>log 2 x\<rfloor> - 52)) * power_int 2 (\<lfloor>log 2 x\<rfloor> - 52)"
  using assms by (simp add: fl64_def Let_def)

lemma fl64_nonneg:
  assumes "0 \<le> x"
  shows "0 \<le> fl64 x"
proof (cases "x = 0")
  case True
  then show ?thesis by simp
next
  case False
  then have pos: "0 < x" using assms by simp
  let ?u = "power_int (2::real) (\<lfloor>log 2 x\<rfloor> - 52)"
  have u: "0 < ?u" by simp
  have "of_int 0 \<le> x / ?u" using pos u by simp
  then have "of_int 0 \<le> np_round (x / ?u)" by (rule np_round_ge_int)
  then show ?thesis using u by (simp add: fl64_pos_unfold[OF pos])
qed

lemma fl64_le_dyadic:
  fixes x :: real
  assumes m: "0 < m" "m \<le> 2 ^ 53" and le: "x \<le> of_int m * power_int 2 j" and pos: "0 < x"
  shows "fl64 x \<le> of_int m * power_int 2 j"
proof -
  let ?e = "\<lfloor>log 2 x\<rfloor>"
  let ?u = "power_int (2::real) (?e - 52)"
  let ?r = "of_int m * power_int (2::real) j"
  have u: "0 < ?u" by simp
  have b: "power_int 2 ?e \<le> x" "x < 2 * power_int 2 ?e" using binade_bounds[OF pos] by simp_all
  have ue: "?u * 2 ^ 52 = power_int 2 ?e"
    by (simp add: power_int_diff)
  show ?thesis
  proof (cases "?e - 52 \<le> j")
    case True
    define d where "d = nat (j - (?e - 52))"
    have "power_int (2::real) j = power_int 2 (?e - 52) * power_int 2 (int d)"
      using True by (simp add: d_def flip: power_int_add)
    then have r: "?r / ?u = of_int (m * 2 ^ d)"
      by (simp add: power_int_def)
    have "x / ?u \<le> ?r / ?u" using le u by (simp add: divide_right_mono)
    then have "np_round (x / ?u) \<le> of_int (m * 2 ^ d)"
      unfolding r by (rule np_round_le_int)
    then have "np_round (x / ?u) * ?u \<le> (?r / ?u) * ?u"
      unfolding r using u by (simp add: mult_right_mono)
    then show ?thesis using u by (simp add: fl64_pos_unfold[OF pos])
  next
    case False
    then have "j \<le> ?e - 53" by linarith
    then have "power_int (2::real) j \<le> power_int 2 (?e - 53)"
      by (intro power_int_increasing) simp_all
    moreover have "(of_int m :: real) \<le> 2 ^ 53" using m(2) by (metis of_int_le_iff of_int_numeral of_int_power)
    ultimately have "?r \<le> 2 ^ 53 * power_int 2 (?e - 53)"
      using m(1) by (intro mult_mono) simp_all
    also have "\<dots> = power_int 2 ?e" by (simp add: power_int_diff)
    finally have "?r \<le> power_int 2 ?e" .
    then have xe: "x = power_int 2 ?e" and re: "?r = power_int 2 ?e" using b(1) le by linarith+
    have "x / ?u = of_int (2 ^ 52)" using ue u xe by (simp add: field_simps)
    then have "np_round (x / ?u) = 2 ^ 52" by (simp only: np_round_of_int) simp
    moreover have "2 ^ 52 * ?u = power_int 2 ?e" using ue by (simp only: mult.commute)
    moreover have "fl64 x = np_round (x / ?u) * ?u" by (rule fl64_pos_unfold[OF pos])
    ultimately have "fl64 x = power_int 2 ?e" by simp
    then show ?thesis using re by simp
  qed
qed

lemma fl64_ge_dyadic:
  fixes x :: real
  assumes m: "0 < m" "m \<le> 2 ^ 53" and le: "of_int m * power_int 2 j \<le> x"
  shows "of_int m * power_int 2 j \<le> fl64 x"
proof -
  let ?r = "of_int m * power_int (2::real) j"
  have rpos: "0 < ?r" using m(1) by simp
  then have pos: "0 < x" using le by linarith
  let ?e = "\<lfloor>log 2 x\<rfloor>"
  let ?u = "power_int (2::real) (?e - 52)"
  have u: "0 < ?u" by simp
  have b: "power_int 2 ?e \<le> x" "x < 2 * power_int 2 ?e" using binade_bounds[OF pos] by simp_all
  have ue: "?u * 2 ^ 52 = power_int 2 ?e"
    by (simp add: power_int_diff)
  show ?thesis
  proof (cases "?e - 52 \<le> j")
    case True
    define d where "d = nat (j - (?e - 52))"
    have "power_int (2::real) j = power_int 2 (?e - 52) * power_int 2 (int d)"
      using True by (simp add: d_def flip: power_int_add)
    then have r: "?r / ?u = of_int (m * 2 ^ d)"
      by (simp add: power_int_def)
    have "?r / ?u \<le> x / ?u" using le u by (simp add: divide_right_mono)
    then have "of_int (m * 2 ^ d) \<le> np_round (x / ?u)"
      unfolding r by (rule np_round_ge_int)
    then have "(?r / ?u) * ?u \<le> np_round (x / ?u) * ?u"
      unfolding r using u by (simp add: mult_right_mono)
    then show ?thesis using u by (simp add: fl64_pos_unfold[OF pos])
  next
    case False
    then have "j \<le> ?e - 53" by linarith
    then have "power_int (2::real) j \<le> power_int 2 (?e - 53)"
      by (intro power_int_increasing) simp_all
    moreover have "(of_int m :: real) \<le> 2 ^ 53" using m(2) by (metis of_int_le_iff of_int_numeral of_int_power)
    ultimately have "?r \<le> 2 ^ 53 * power_int 2 (?e - 53)"
      using m(1) by (intro mult_mono) simp_all
    also have "\<dots> = power_int 2 ?e" by (simp add: power_int_diff)
    finally have re: "?r \<le> power_int 2 ?e" .
    have "of_int (2 ^ 52) \<le> x / ?u" using b(1) ue u by (simp add: field_simps)
    then have "of_int (2 ^ 52) \<le> np_round (x / ?u)" by (rule np_round_ge_int)
    then have "2 ^ 52 * ?u \<le> np_round (x / ?u) * ?u" using u by (simp add: mult_right_mono)
    moreover have "2 ^ 52 * ?u = power_int 2 ?e" using ue by (simp only: mult.commute)
    moreover have "fl64 x = np_round (x / ?u) * ?u" by (rule fl64_pos_unfold[OF pos])
    ultimately have "power_int 2 ?e \<le> fl64 x" by linarith
    then show ?thesis using re by linarith
  qed
qed

lemma fl64_le_dyadic0:
  fixes x :: real
  assumes "0 < m" "m \<le> 2 ^ 53" and "x \<le> of_int m * power_int 2 j" and "0 \<le> x"
  shows "fl64 x \<le> of_int m * power_int 2 j"
proof (cases "x = 0")
  case True
  then show ?thesis using assms(1) by simp
next
  case False
  then have "0 < x" using assms(4) by simp
  with assms(1-3) show ?thesis by (rule fl64_le_dyadic)
qed

section \<open>Properties of echo\<close>

lemma slice_upto_neg: "0 < d \<Longrightarrow> slice_upto (- d) a = take (length a - nat d) a"
  by (auto simp: slice_upto_def slice_index_def max_def nat_diff_distrib' nat_add_distrib)

lemma echo_body_pos:
  assumes "0 < echo_delay_samples delay sr"
  shows "echo_body audio sr delay decay =
     Inr (np_add audio (replicate (min (length audio) (nat (echo_delay_samples delay sr))) 0
            @ map (\<lambda>x. x * decay) (take (length audio - nat (echo_delay_samples delay sr)) audio)))"
  using assms
  by (auto simp: echo_body_def Let_def assign_from_def slice_upto_neg zeros_like_def
      slice_index_def min_def)

lemma apply_echo_pos:
  assumes "0 < echo_delay_samples delay sr"
  shows "apply_echo audio sr delay decay =
     np_add audio (replicate (min (length audio) (nat (echo_delay_samples delay sr))) 0
            @ map (\<lambda>x. x * decay) (take (length audio - nat (echo_delay_samples delay sr)) audio))"
  by (simp add: apply_echo_def or_input_def echo_body_pos[OF assms])

lemma apply_echo_length: "length (apply_echo audio sr delay decay) = length audio"
  by (auto simp: apply_echo_def or_input_def echo_body_def Let_def assign_from_def np_add_def
      zeros_like_def split: sum.splits if_splits)

lemma apply_echo_nth:
  assumes "0 < echo_delay_samples delay sr" and "n < length audio"
  shows "apply_echo audio sr delay decay ! n =
     (if nat (echo_delay_samples delay sr) \<le> n
      then audio ! n + decay * audio ! (n - nat (echo_delay_samples delay sr))
      else audio ! n)"
proof -
  let ?d = "nat (echo_delay_samples delay sr)"
  let ?z = "replicate (min (length audio) ?d) 0
              @ map (\<lambda>x. x * decay) (take (length audio - ?d) audio)"
  have len: "length ?z = length audio" by auto
  have "apply_echo audio sr delay decay ! n = audio ! n + ?z ! n"
    using assms(2) len by (simp add: apply_echo_pos[OF assms(1)] np_add_def)
  moreover have "?z ! n = (if ?d \<le> n then decay * audio ! (n - ?d) else 0)"
  proof (cases "?d \<le> n")
    case True
    then have "min (length audio) ?d = ?d" and "n - ?d < length audio - ?d"
      using assms(2) by simp_all
    then show ?thesis using True by (simp add: nth_append)
  next
    case False
    then show ?thesis using assms(2) by (simp add: nth_append)
  qed
  ultimately show ?thesis by simp
qed

lemma echo_delay_samples_scenario: "echo_delay_samples (3 / 10) 22050 = 6615"
  by (simp add: echo_delay_samples_def py_int_def np_round_def
      fl64_binade[where k = "- 2"] fl64_binade[where k = 14] fl64_binade[where k = 12])

lemma echo_delay_samples_8000: "echo_delay_samples (1001 / 10000) 8000 = 800"
  by (simp add: echo_delay_samples_def py_int_def np_round_def
      fl64_binade[where k = "- 4"] fl64_binade[where k = 12] fl64_binade[where k = 9])

lemma echo_delay_samples_tenth: "echo_delay_samples (1 / 10) 10 = 1"
  by (simp add: echo_delay_samples_def py_int_def np_round_def
      fl64_binade[where k = "- 4"] fl64_binade[where k = 3] fl64_binade[where k = 0])

lemma echo_delay_samples_8007: "echo_delay_samples (1001 / 1000) 8000 = 8007"
  by (simp add: echo_delay_samples_def py_int_def np_round_def
      fl64_binade[where k = 0] fl64_binade[where k = 12])

lemma echo_delay_samples_29: "echo_delay_samples (29 / 100) 100 = 28"
  by (simp add: echo_delay_samples_def py_int_def np_round_def
      fl64_binade[where k = "- 2"] fl64_binade[where k = 6] fl64_binade[where k = 4])

text \<open>
  C2, as the code has it. The delay in samples is \<open>int(delay_s * sr)\<close>: the binary64
  product truncated towards zero, not rounded. For valid parameters and a delay of at
  least one sample, the output has the length of the input, sample \<open>n\<close> is
  \<open>w[n] + decay * w[n - d]\<close> from index \<open>d\<close> on and \<open>w[n]\<close> before it; and for
  a one-second input at 22050 Hz with delay 0.3 s and decay 0.5, sample 6615 is
  \<open>w[6615] + 0.5 * w[0]\<close>.
\<close>

theorem apply_echo_truncated_delay:
  assumes "1 / 10 \<le> delay_s" and "delay_s \<le> 2" and "1 / 10 \<le> decay" and "decay \<le> 9 / 10"
    and "0 < sr" and "1 \<le> echo_delay_samples delay_s sr" and "n < length w"
  shows "length (apply_echo w sr delay_s decay) = length w
       \<and> apply_echo w sr delay_s decay ! n =
           (if nat (echo_delay_samples delay_s sr) \<le> n
            then w ! n + decay * w ! (n - nat (echo_delay_samples delay_s sr))
            else w ! n)
       \<and> echo_delay_samples delay_s sr = py_int (fl64 (fl64 delay_s * fl64 (of_int sr)))
       \<and> (length w = 22050 \<longrightarrow>
            length (apply_echo w 22050 (3 / 10) (1 / 2)) = 22050
            \<and> apply_echo w 22050 (3 / 10) (1 / 2) ! 6615 = w ! 6615 + 1 / 2 * w ! 0)"
proof (intro conjI impI)
  show "length (apply_echo w sr delay_s decay) = length w"
    by (rule apply_echo_length)
  show "apply_echo w sr delay_s decay ! n =
           (if nat (echo_delay_samples delay_s sr) \<le> n
            then w ! n + decay * w ! (n - nat (echo_delay_samples delay_s sr))
            else w ! n)"
    using assms(6,7) by (simp add: apply_echo_nth)
  show "echo_delay_samples delay_s sr = py_int (fl64 (fl64 delay_s * fl64 (of_int sr)))"
    by (rule echo_delay_samples_def)
  show "length (apply_echo w 22050 (3 / 10) (1 / 2)) = 22050" if "length w = 22050"
    using that by (simp add: apply_echo_length)
  show "apply_echo w 22050 (3 / 10) (1 / 2) ! 6615 = w ! 6615 + 1 / 2 * w ! 0"
    if "length w = 22050"
    using that by (simp add: apply_echo_nth echo_delay_samples_scenario)
qed

theorem apply_echo_truncated_delay_witness:
  "(1 / 10 :: real) \<le> 3 / 10 \<and> (3 / 10 :: real) \<le> 2
   \<and> (1 / 10 :: real) \<le> 1 / 2 \<and> (1 / 2 :: real) \<le> 9 / 10 \<and> (0 :: int) < 22050
   \<and> echo_delay_samples (3 / 10) 22050 = 6615
   \<and> 6615 < length (replicate 22050 (1::real))
   \<and> length (apply_echo (replicate 22050 1) 22050 (3 / 10) (1 / 2)) = 22050
   \<and> apply_echo (replicate 22050 1) 22050 (3 / 10) (1 / 2) ! 6615 = 3 / 2
   \<and> echo_delay_samples (29 / 100) 100 = 28
   \<and> apply_echo (replicate 100 1) 100 (29 / 100) (1 / 2) ! 28 = 3 / 2"
  using apply_echo_truncated_delay [of "3 / 10" "1 / 2" 22050 6615 "replicate 22050 1"]
    apply_echo_truncated_delay [of "29 / 100" "1 / 2" 100 28 "replicate 100 1"]
  by (simp add: echo_delay_samples_scenario echo_delay_samples_29)

text \<open>
  The claim as worded fails where truncation and rounding differ: at 8000 Hz a delay of
  0.1001 s is 800.8 samples, which the code truncates to 800 and the specification rounds
  to 801, so sample 800 of a constant signal already carries the echo.
\<close>

theorem echo_rounding_counterexample:
  "(1 / 10 :: real) \<le> 1001 / 10000 \<and> (1001 / 10000 :: real) \<le> 2
   \<and> echo_delay_samples (1001 / 10000) 8000 = 800
   \<and> apply_echo (replicate 1000 1) 8000 (1001 / 10000) (1 / 2) ! 800 = 3 / 2
   \<and> echo_spec (replicate 1000 1) 8000 (1001 / 10000) (1 / 2) 800 = 1
   \<and> apply_echo (replicate 1000 1) 8000 (1001 / 10000) (1 / 2) ! 800
       \<noteq> echo_spec (replicate 1000 1) 8000 (1001 / 10000) (1 / 2) 800"
  by (simp add: apply_echo_nth echo_delay_samples_8000 echo_spec_def round_def)

lemma apply_echo_past_end:
  assumes "int (length audio) \<le> echo_delay_samples delay sr"
  shows "apply_echo audio sr delay decay = audio"
proof (cases "0 < echo_delay_samples delay sr")
  case True
  have "nat (echo_delay_samples delay sr) \<ge> length audio" using assms by linarith
  then show ?thesis
    by (simp add: apply_echo_pos[OF True] np_add_def min_def map2_map_map
        flip: map_replicate_const)
      (simp add: map_idI zip_replicate2 list_eq_iff_nth_eq)
next
  case False
  then have "length audio = 0" using assms by linarith
  then show ?thesis
    using apply_echo_length[of audio sr delay decay] by simp
qed

text \<open>
  C9. When the delay in samples, \<open>int(delay_s * sr)\<close> with the product taken in
  binary64, is at least the length of the waveform, echo returns the waveform unchanged.
\<close>

theorem apply_echo_delay_past_end:
  "int (length w) \<le> echo_delay_samples delay_s sr \<Longrightarrow> apply_echo w sr delay_s decay = w"
  by (rule apply_echo_past_end)

theorem apply_echo_delay_past_end_witness:
  "echo_delay_samples (3 / 10) 22050 = 6615
   \<and> int (length [1, 2, 3 :: real]) \<le> echo_delay_samples (3 / 10) 22050
   \<and> apply_echo [1, 2, 3] 22050 (3 / 10) (1 / 2) = [1, 2, 3]
   \<and> echo_delay_samples (1001 / 1000) 8000 = 8007
   \<and> int (length (replicate 8007 (1::real))) \<le> echo_delay_samples (1001 / 1000) 8000
   \<and> apply_echo (replicate 8007 1) 8000 (1001 / 1000) (1 / 2) = replicate 8007 1"
  using apply_echo_delay_past_end [of "[1, 2, 3]" "3 / 10" 22050 "1 / 2"]
    apply_echo_delay_past_end [of "replicate 8007 1" "1001 / 1000" 8000 "1 / 2"]
  by (simp add: echo_delay_samples_scenario echo_delay_samples_8007)

section \<open>Properties of normalisation\<close>

lemma normalize_audio_Nil: "normalize_audio [] = []"
  by (simp add: normalize_audio_def normalize_body_def np_max_def or_input_def)

lemma normalize_audio_nonempty:
  "w \<noteq> [] \<Longrightarrow> normalize_audio w =
     (if peak w > 0 then map (\<lambda>x. x / peak w * (95 / 100)) w else w)"
  by (simp add: normalize_audio_def normalize_body_def np_max_def or_input_def peak_def)

lemma peak_pos_iff: "w \<noteq> [] \<Longrightarrow> 0 < peak w \<longleftrightarrow> (\<exists>x\<in>set w. x \<noteq> 0)"
proof
  assume ne: "w \<noteq> []" and pos: "0 < peak w"
  have "peak w \<in> abs ` set w"
    unfolding peak_def using ne Max_in[of "abs ` set w"] by simp
  then show "\<exists>x\<in>set w. x \<noteq> 0" using pos by auto
next
  assume ne: "w \<noteq> []" and "\<exists>x\<in>set w. x \<noteq> 0"
  then obtain x where x: "x \<in> set w" "x \<noteq> 0" by blast
  then have "\<bar>x\<bar> \<le> peak w" by (simp add: peak_def)
  then show "0 < peak w" using x(2) by linarith
qed

lemma peak_scale:
  assumes "w \<noteq> []" and "0 \<le> c"
  shows "peak (map (\<lambda>x. x * c) w) = peak w * c"
proof -
  have m: "mono (\<lambda>y::real. y * c)" using assms(2) by (simp add: mono_def mult_right_mono)
  have "set (map abs (map (\<lambda>x. x * c) w)) = (\<lambda>y. y * c) ` (abs ` set w)"
    using assms(2) by (auto simp: abs_mult image_iff)
  then have "peak (map (\<lambda>x. x * c) w) = Max ((\<lambda>y. y * c) ` (abs ` set w))"
    by (simp add: peak_def)
  also have "\<dots> = Max (abs ` set w) * c"
    using mono_Max_commute[OF m, of "abs ` set w"] assms(1) by simp
  finally show ?thesis by (simp add: peak_def)
qed

lemma normalize_audio_peak:
  assumes "\<exists>x\<in>set w. x \<noteq> 0"
  shows "peak (normalize_audio w) = 95 / 100"
proof -
  have ne: "w \<noteq> []" using assms by auto
  then have pos: "0 < peak w" using assms by (simp add: peak_pos_iff)
  have "normalize_audio w = map (\<lambda>x. x * (95 / 100 / peak w)) w"
    using ne pos by (simp add: normalize_audio_nonempty)
  then have "peak (normalize_audio w) = peak w * (95 / 100 / peak w)"
    using peak_scale[OF ne, of "95 / 100 / peak w"] pos by simp
  then show ?thesis using pos by simp
qed

lemma normalize_audio_silent:
  assumes "\<forall>x\<in>set w. x = 0"
  shows "normalize_audio w = w"
proof (cases "w = []")
  case True
  then show ?thesis by (simp add: normalize_audio_Nil)
next
  case False
  then have "\<not> 0 < peak w" using assms by (simp add: peak_pos_iff)
  then show ?thesis using False by (simp add: normalize_audio_nonempty)
qed

lemma normalize_audio_idem: "normalize_audio (normalize_audio w) = normalize_audio w"
proof (cases "\<exists>x\<in>set w. x \<noteq> 0")
  case True
  then have ne: "w \<noteq> []" by auto
  have pos: "0 < peak w" using True ne by (simp add: peak_pos_iff)
  have p: "peak (normalize_audio w) = 95 / 100" using True by (rule normalize_audio_peak)
  have ne': "normalize_audio w \<noteq> []" using ne pos by (simp add: normalize_audio_nonempty)
  show ?thesis
    by (simp add: normalize_audio_nonempty[OF ne'] p)
next
  case False
  then have "normalize_audio w = w" by (simp add: normalize_audio_silent)
  then show ?thesis by simp
qed

text \<open>
  C4. Normalisation is idempotent; on a waveform with a nonzero sample the maximum
  absolute sample of the result is exactly 0.95; and a silent waveform (every sample
  zero, the empty waveform included) is returned unchanged.
\<close>

theorem normalize_audio_idempotent_peak:
  "normalize_audio (normalize_audio w) = normalize_audio w
   \<and> ((\<exists>x\<in>set w. x \<noteq> 0) \<longrightarrow> peak (normalize_audio w) = 95 / 100)
   \<and> ((\<forall>x\<in>set w. x = 0) \<longrightarrow> normalize_audio w = w)"
  by (simp add: normalize_audio_idem normalize_audio_peak normalize_audio_silent)

theorem normalize_audio_idempotent_peak_witness:
  "normalize_audio (normalize_audio [1, - 2, 1 / 2]) = normalize_audio [1, - 2, 1 / 2]
   \<and> peak (normalize_audio [1, - 2, 1 / 2]) = 95 / 100
   \<and> normalize_audio [1, - 2, 1 / 2] = [19 / 40, - (19 / 20), 19 / 80]
   \<and> normalize_audio [0, 0] = [0, 0]"
  using normalize_audio_idempotent_peak [of "[1, - 2, 1 / 2]"]
    normalize_audio_idempotent_peak [of "[0, 0]"]
  by (simp add: normalize_audio_def normalize_body_def np_max_def or_input_def)

section \<open>Properties of robot voice\<close>

lemma robot_carrier_length: "length (robot_carrier len sr intensity) = len"
  by (simp add: robot_carrier_def)

lemma robot_carrier_nth:
  "n < len \<Longrightarrow> robot_carrier len sr intensity ! n
     = sin (2 * pi * (30 + intensity * 100) * (real n / of_int sr))"
  by (simp add: robot_carrier_def)

lemma apply_robot_voice_length: "length (apply_robot_voice w sr intensity) = length w"
  by (simp add: apply_robot_voice_def Let_def robot_carrier_length)

lemma apply_robot_voice_nth:
  assumes "n < length w"
  shows "apply_robot_voice w sr intensity ! n =
     (let m = w ! n * (1 + intensity * sin (2 * pi * (30 + intensity * 100) * (real n / of_int sr)))
      in if intensity > 3 / 10 then quantize (robot_bit_depth intensity) m else m)"
  using assms
  by (simp add: apply_robot_voice_def Let_def robot_carrier_length robot_carrier_nth quantize_def)

lemma apply_robot_voice_zero: "apply_robot_voice w sr 0 = w"
  by (simp add: list_eq_iff_nth_eq apply_robot_voice_length apply_robot_voice_nth)

lemma robot_voice_in_length: "length (robot_voice_in rnd sine w sr intensity) = length w"
  by (simp add: robot_voice_in_def Let_def)

lemma robot_voice_in_nth:
  assumes "n < length w"
  shows "robot_voice_in rnd sine w sr intensity ! n =
     (if rnd intensity > rnd (3 / 10)
      then robot_quantize_in rnd (robot_bit_depth_in rnd intensity)
             (robot_modulated_in rnd sine (w ! n) sr intensity n)
      else robot_modulated_in rnd sine (w ! n) sr intensity n)"
  using assms by (simp add: robot_voice_in_def Let_def)

text \<open>Without rounding and with the exact sine, the parametrised method is the exact one.\<close>

lemma apply_robot_voice_exact:
  "apply_robot_voice w sr intensity = robot_voice_in (\<lambda>x. x) sin w sr intensity"
proof (rule nth_equalityI)
  show "length (apply_robot_voice w sr intensity)
          = length (robot_voice_in (\<lambda>x. x) sin w sr intensity)"
    by (simp add: robot_voice_in_length apply_robot_voice_length)
next
  fix n assume "n < length (apply_robot_voice w sr intensity)"
  then have n: "n < length w"
    by (simp add: apply_robot_voice_length)
  then show "apply_robot_voice w sr intensity ! n = robot_voice_in (\<lambda>x. x) sin w sr intensity ! n"
    by (simp add: robot_voice_in_nth apply_robot_voice_def Let_def robot_carrier_length
        robot_carrier_nth robot_quantize_in_def robot_modulated_in_def robot_bit_depth_in_def
        robot_bit_depth_def)
qed

lemma fl64_three_tenths_ge: "9 / 32 \<le> fl64 (3 / 10)"
  using fl64_ge_dyadic[of 9 "- 5" "3 / 10"] by simp

lemma robot_bit_depth_binary64_range:
  assumes "0 \<le> intensity" "intensity \<le> 1" "fl64 (3 / 10) < fl64 intensity"
  shows "8 \<le> robot_bit_depth_in fl64 intensity \<and> robot_bit_depth_in fl64 intensity \<le> 13"
proof -
  let ?i = "fl64 intensity"
  have i_le: "?i \<le> 1"
    using fl64_le_dyadic0[of 1 intensity 0] assms(1,2) by simp
  have i_gt: "9 / 32 < ?i" using fl64_three_tenths_ge assms(3) by linarith
  let ?a = "fl64 (1 - ?i)"
  have a0: "0 \<le> ?a" using i_le by (intro fl64_nonneg) simp
  have "1 - ?i \<le> of_int 23 * power_int 2 (- 5)" using i_gt by simp
  then have a1: "?a \<le> 23 / 32"
    using fl64_le_dyadic0[of 23 "1 - ?i" "- 5"] i_le by simp
  let ?c = "fl64 (?a * 8)"
  have c0: "0 \<le> ?c" using a0 by (intro fl64_nonneg) simp
  have "?a * 8 \<le> of_int 23 * power_int 2 (- 2)" using a1 by simp
  then have c1: "?c \<le> 23 / 4"
    using fl64_le_dyadic0[of 23 "?a * 8" "- 2"] a0 by simp
  let ?e = "fl64 (8 + ?c)"
  have "of_int 1 * power_int 2 3 \<le> 8 + ?c" using c0 by simp
  then have e0: "8 \<le> ?e" using fl64_ge_dyadic[of 1 3 "8 + ?c"] by simp
  have "8 + ?c \<le> of_int 55 * power_int 2 (- 2)" using c1 by simp
  then have e1: "?e \<le> 55 / 4"
    using fl64_le_dyadic0[of 55 "8 + ?c" "- 2"] c0 by simp
  have "8 \<le> \<lfloor>?e\<rfloor>" using e0 by (simp add: le_floor_iff)
  moreover have "\<lfloor>?e\<rfloor> \<le> 13" using e1 by (simp add: floor_le_iff)
  ultimately show ?thesis using e0 by (simp add: robot_bit_depth_in_def py_int_def)
qed

lemma robot_bit_depth_four_tenths: "robot_bit_depth_in fl64 (4 / 10) = 12"
  by (simp add: robot_bit_depth_in_def py_int_def np_round_def
      fl64_binade[where k = "- 2"] fl64_binade[where k = "- 1"] fl64_binade[where k = 2]
      fl64_binade[where k = 3])

lemma robot_bit_depth_above_three_eighths:
  "robot_bit_depth_in fl64 (3 / 8 + 1 / 2 ^ 53) = 13"
  by (simp add: robot_bit_depth_in_def py_int_def np_round_def
      fl64_binade[where k = "- 2"] fl64_binade[where k = "- 1"] fl64_binade[where k = 2]
      fl64_binade[where k = 3])

lemma fl64_four_tenths_gt: "fl64 (3 / 10) < fl64 (4 / 10)"
  by (simp add: np_round_def fl64_binade[where k = "- 2"])

lemma fl64_one: "fl64 1 = 1"
  by (simp add: np_round_def fl64_binade[where k = 0])

lemma fl64_sample: "fl64 (5 / 16384) = 5 / 16384"
  by (simp add: np_round_def fl64_binade[where k = "- 12"])

lemma robot_modulated_first:
  "robot_modulated_in fl64 sample_sin (5 / 16384) 22050 (4 / 10) 0 = 5 / 16384"
  by (simp add: robot_modulated_in_def sample_sin_def fl64_one fl64_sample)

lemma robot_quantize_12: "robot_quantize_in fl64 12 (5 / 16384) = 1 / 2048"
  by (simp add: robot_quantize_in_def np_round_def
      fl64_binade[where k = "- 1"] fl64_binade[where k = "- 11"])

lemma robot_sample_value:
  "robot_voice_binary64 sample_sin [5 / 16384] 22050 (4 / 10) ! 0 = 1 / 2048"
  by (simp only: robot_voice_binary64_def robot_voice_in_nth length_Cons list.size
      lessI nth_Cons_0 fl64_four_tenths_gt if_True robot_bit_depth_four_tenths
      robot_modulated_first robot_quantize_12)

text \<open>
  C6, as the code has it. Every operation is a binary64 operation. For an intensity in
  [0, 1] and a positive sample rate, robot voice keeps the length and ring-modulates:
  \<open>m[n] = w[n] * (1 + intensity * sin(2 pi f_c n / sr))\<close> with
  \<open>f_c = 30 + intensity * 100\<close>. Up to intensity 0.3 that is the output. Above 0.3 the
  output is \<open>round(m[n] * 2 ^ (b - 1)) / 2 ^ (b - 1)\<close> for the bit depth
  \<open>b = int(8 + (1 - intensity) * 8)\<close>, truncated and not rounded, which lies between
  8 and 13.
\<close>

theorem robot_voice_binary64_depth:
  assumes "0 \<le> intensity" and "intensity \<le> 1" and "0 < sr" and "n < length w"
  shows "length (robot_voice_binary64 np_sin w sr intensity) = length w
   \<and> robot_voice_binary64 np_sin w sr intensity ! n =
       (if fl64 (3 / 10) < fl64 intensity
        then robot_quantize_in fl64 (robot_bit_depth_in fl64 intensity)
               (robot_modulated_in fl64 np_sin (w ! n) sr intensity n)
        else robot_modulated_in fl64 np_sin (w ! n) sr intensity n)
   \<and> robot_modulated_in fl64 np_sin (w ! n) sr intensity n =
       fl64 (w ! n * fl64 (1 + fl64 (fl64 intensity *
         np_sin (fl64 (fl64 (fl64 (2 * fl64 pi) * fl64 (30 + fl64 (fl64 intensity * 100)))
                        * fl64 (real n / fl64 (of_int sr)))))))
   \<and> robot_bit_depth_in fl64 intensity = py_int (fl64 (8 + fl64 (fl64 (1 - fl64 intensity) * 8)))
   \<and> robot_quantize_in fl64 b x
       = fl64 (np_round (fl64 (x * power_int 2 (b - 1))) / power_int 2 (b - 1))
   \<and> (fl64 (3 / 10) < fl64 intensity \<longrightarrow>
        8 \<le> robot_bit_depth_in fl64 intensity \<and> robot_bit_depth_in fl64 intensity \<le> 13)"
proof (intro conjI impI)
  show "length (robot_voice_binary64 np_sin w sr intensity) = length w"
    by (simp only: robot_voice_binary64_def robot_voice_in_length)
  show "robot_voice_binary64 np_sin w sr intensity ! n =
       (if fl64 (3 / 10) < fl64 intensity
        then robot_quantize_in fl64 (robot_bit_depth_in fl64 intensity)
               (robot_modulated_in fl64 np_sin (w ! n) sr intensity n)
        else robot_modulated_in fl64 np_sin (w ! n) sr intensity n)"
    by (simp only: robot_voice_binary64_def robot_voice_in_nth[OF assms(4)])
  show "robot_modulated_in fl64 np_sin (w ! n) sr intensity n =
       fl64 (w ! n * fl64 (1 + fl64 (fl64 intensity *
         np_sin (fl64 (fl64 (fl64 (2 * fl64 pi) * fl64 (30 + fl64 (fl64 intensity * 100)))
                        * fl64 (real n / fl64 (of_int sr)))))))"
    by (simp only: robot_modulated_in_def Let_def)
  show "robot_bit_depth_in fl64 intensity
          = py_int (fl64 (8 + fl64 (fl64 (1 - fl64 intensity) * 8)))"
    by (simp only: robot_bit_depth_in_def)
  show "robot_quantize_in fl64 b x
       = fl64 (np_round (fl64 (x * power_int 2 (b - 1))) / power_int 2 (b - 1))"
    by (simp only: robot_quantize_in_def Let_def)
  show "8 \<le> robot_bit_depth_in fl64 intensity" if "fl64 (3 / 10) < fl64 intensity"
    using robot_bit_depth_binary64_range[OF assms(1,2) that] by simp
  show "robot_bit_depth_in fl64 intensity \<le> 13" if "fl64 (3 / 10) < fl64 intensity"
    using robot_bit_depth_binary64_range[OF assms(1,2) that] by simp
qed

theorem robot_voice_binary64_depth_witness:
  "(0::real) \<le> 4 / 10 \<and> (4 / 10 :: real) \<le> 1 \<and> (0::int) < 22050
   \<and> 0 < length [5 / 16384 :: real]
   \<and> fl64 (3 / 10) < fl64 (4 / 10)
   \<and> robot_bit_depth_in fl64 (4 / 10) = 12
   \<and> length (robot_voice_binary64 sample_sin [5 / 16384] 22050 (4 / 10)) = 1
   \<and> robot_voice_binary64 sample_sin [5 / 16384] 22050 (4 / 10) ! 0
       = robot_quantize_in fl64 12 (5 / 16384)
   \<and> robot_quantize_in fl64 12 (5 / 16384) = 1 / 2048
   \<and> robot_bit_depth_in fl64 (3 / 8 + 1 / 2 ^ 53) = 13"
proof -
  have hyps: "(0::real) \<le> 4 / 10" "(4 / 10 :: real) \<le> 1" "(0::int) < 22050"
    "0 < length [5 / 16384 :: real]"
    by simp_all
  note inst = robot_voice_binary64_depth [OF hyps, of sample_sin]
  have len: "length (robot_voice_binary64 sample_sin [5 / 16384] 22050 (4 / 10)) = 1"
    using inst by simp
  have val: "robot_voice_binary64 sample_sin [5 / 16384] 22050 (4 / 10) ! 0
       = robot_quantize_in fl64 12 (5 / 16384)"
    using conjunct1[OF conjunct2[OF inst]]
    by (simp only: fl64_four_tenths_gt if_True robot_bit_depth_four_tenths nth_Cons_0
        robot_modulated_first)
  show ?thesis
    using hyps len val fl64_four_tenths_gt robot_bit_depth_four_tenths robot_quantize_12
      robot_bit_depth_above_three_eighths
    by blast
qed

text \<open>
  The claim as worded fails at intensity 0.4: \<open>(1 - 0.4) * 8\<close> is about 4.8, so the
  code quantises to \<open>int(12.8) = 12\<close> bits where the specification's rounding gives 13,
  and a sample of \<open>5 / 16384\<close> comes out as \<open>1 / 2048\<close> instead of \<open>1 / 4096\<close>.
\<close>

theorem robot_bit_depth_counterexample:
  "(3 / 10 :: real) < 4 / 10 \<and> (4 / 10 :: real) \<le> 1
   \<and> robot_bit_depth_in fl64 (4 / 10) = 12
   \<and> 8 + round ((1 - 4 / 10 :: real) * 8) = 13
   \<and> robot_voice_binary64 sample_sin [5 / 16384] 22050 (4 / 10) ! 0 = 1 / 2048
   \<and> robot_voice_spec [5 / 16384] 22050 (4 / 10) 0 = 1 / 4096
   \<and> robot_voice_binary64 sample_sin [5 / 16384] 22050 (4 / 10) ! 0
       \<noteq> robot_voice_spec [5 / 16384] 22050 (4 / 10) 0"
proof -
  have spec: "robot_voice_spec [5 / 16384] 22050 (4 / 10) 0 = 1 / 4096"
    by (simp add: robot_voice_spec_def quantize_def round_def np_round_def)
  have depth: "8 + round ((1 - 4 / 10 :: real) * 8) = 13"
    by (simp add: round_def)
  show ?thesis
    using spec depth robot_sample_value robot_bit_depth_four_tenths by simp
qed

section \<open>Properties of the pipeline\<close>

lemma process_effects_compose:
  "process_effects P w sr eff = compose_enabled P sr eff canonical_order w"
  by (simp add: process_effects_def compose_enabled_def canonical_order_def Let_def)

lemma stage_primitive_or_input:
  "stage_primitive P sr eff st a = or_input (stage_body P sr eff st a) a"
  by (cases st)
    (simp_all add: apply_pitch_shift_def apply_speed_change_def apply_echo_def apply_reverb_def
      normalize_audio_def or_input_def)

lemma stage_failure_absorbed:
  "isl (stage_body P sr eff st a) \<Longrightarrow> stage_primitive P sr eff st a = a"
  by (cases "stage_body P sr eff st a") (simp_all add: stage_primitive_or_input or_input_def)

lemma compose_enabled_Cons:
  "compose_enabled P sr eff (st # rest) a =
     compose_enabled P sr eff rest
       (if stage_enabled eff st then stage_primitive P sr eff st a else a)"
  by (simp add: compose_enabled_def)

lemma compose_enabled_all_fail:
  assumes "\<forall>st\<in>set stages. stage_enabled eff st \<longrightarrow> isl (stage_body P sr eff st w)"
  shows "compose_enabled P sr eff stages w = w"
  using assms
proof (induction stages)
  case Nil
  then show ?case by (simp add: compose_enabled_def)
next
  case (Cons st rest)
  then show ?case by (simp add: compose_enabled_Cons stage_failure_absorbed)
qed

lemma pitch_zero_disabled:
  "process_effects P w sr (eff(''pitch_shift'' \<mapsto> PyNum 0))
     = process_effects P w sr (eff(''pitch_shift'' := None))"
  by (simp add: process_effects_def key_differs_def key_true_def get_num_def)

lemma speed_one_disabled:
  "process_effects P w sr (eff(''speed_change'' \<mapsto> PyNum 1))
     = process_effects P w sr (eff(''speed_change'' := None))"
  by (simp add: process_effects_def key_differs_def key_true_def get_num_def)

text \<open>
  C1. Whatever the configuration enables, the chain of apply_effects is the composition
  of the enabled primitives in the order pitch shift, speed change, robot, echo, reverb,
  normalize, applied to the decoded waveform; the result of apply_effects is that
  waveform saved, or the decoding error.
\<close>

theorem apply_effects_canonical_order:
  "process_effects P w sr eff
     = fold (stage_primitive P sr eff) (filter (stage_enabled eff) canonical_order) w
   \<and> canonical_order = [PitchShift, SpeedChange, RobotVoice, Echo, Reverb, Normalize]
   \<and> apply_effects D P save path eff fmt =
       (case load_audio D path of
          Inl e \<Rightarrow> Inl e
        | Inr (decoded, rate) \<Rightarrow>
            save (fold (stage_primitive P rate eff) (filter (stage_enabled eff) canonical_order)
                    decoded) rate fmt)"
proof -
  have chain: "process_effects P' w' sr' eff
     = fold (stage_primitive P' sr' eff) (filter (stage_enabled eff) canonical_order) w'"
    for P' w' sr'
    by (simp only: process_effects_compose compose_enabled_def)
  have order: "canonical_order = [PitchShift, SpeedChange, RobotVoice, Echo, Reverb, Normalize]"
    by (fact canonical_order_def)
  have whole: "apply_effects D P save path eff fmt =
       (case load_audio D path of
          Inl e \<Rightarrow> Inl e
        | Inr (decoded, rate) \<Rightarrow>
            save (fold (stage_primitive P rate eff) (filter (stage_enabled eff) canonical_order)
                    decoded) rate fmt)"
    by (simp only: apply_effects_def chain)
  from chain order whole show ?thesis by blast
qed

theorem apply_effects_canonical_order_witness:
  "process_effects failing_primitives [1, 2, 3] 10
      [''normalize'' \<mapsto> PyBool True, ''echo'' \<mapsto> PyBool True, ''echo_delay'' \<mapsto> PyNum (1 / 10),
       ''pitch_shift'' \<mapsto> PyNum 0]
     = normalize_audio (apply_echo [1, 2, 3] 10 (1 / 10) (1 / 2))
   \<and> normalize_audio (apply_echo [1, 2, 3] 10 (1 / 10) (1 / 2)) = [19 / 80, 19 / 32, 19 / 20]"
  using apply_effects_canonical_order [of failing_primitives "[1, 2, 3]" 10
      "[''normalize'' \<mapsto> PyBool True, ''echo'' \<mapsto> PyBool True, ''echo_delay'' \<mapsto> PyNum (1 / 10),
       ''pitch_shift'' \<mapsto> PyNum 0]"]
  by (simp add: canonical_order_def key_true_def key_differs_def get_num_def
      apply_echo_def echo_body_def echo_delay_samples_tenth assign_from_def slice_index_def
      slice_upto_def zeros_like_def np_add_def normalize_audio_def normalize_body_def np_max_def
      or_input_def)

text \<open>
  C3. A pitch shift of 0 and a speed factor of 1 leave their stages out, and robot voice
  at intensity 0 returns its input: the pipeline run with only that setting, at a positive
  sample rate, returns the waveform unchanged.
\<close>

theorem pipeline_identities:
  assumes "0 < sr"
  shows "process_effects P w sr [''pitch_shift'' \<mapsto> PyNum 0] = w
       \<and> process_effects P w sr [''speed_change'' \<mapsto> PyNum 1] = w
       \<and> process_effects P w sr [''robot_voice'' \<mapsto> PyBool True, ''robot_intensity'' \<mapsto> PyNum 0] = w
       \<and> apply_robot_voice w sr 0 = w
       \<and> process_effects P w sr (eff(''pitch_shift'' \<mapsto> PyNum 0))
           = process_effects P w sr (eff(''pitch_shift'' := None))
       \<and> process_effects P w sr (eff(''speed_change'' \<mapsto> PyNum 1))
           = process_effects P w sr (eff(''speed_change'' := None))"
proof -
  have "process_effects P w sr [''pitch_shift'' \<mapsto> PyNum 0] = w"
    by (simp add: process_effects_def key_differs_def key_true_def get_num_def)
  moreover have "process_effects P w sr [''speed_change'' \<mapsto> PyNum 1] = w"
    by (simp add: process_effects_def key_differs_def key_true_def get_num_def)
  moreover have
    "process_effects P w sr [''robot_voice'' \<mapsto> PyBool True, ''robot_intensity'' \<mapsto> PyNum 0] = w"
    by (simp add: process_effects_def key_differs_def key_true_def get_num_def
        apply_robot_voice_zero)
  ultimately show ?thesis
    by (simp add: apply_robot_voice_zero pitch_zero_disabled speed_one_disabled)
qed

theorem pipeline_identities_witness:
  "(0::int) < 22050
   \<and> process_effects failing_primitives [1, - 2, 3] 22050 [''pitch_shift'' \<mapsto> PyNum 0] = [1, - 2, 3]
   \<and> process_effects failing_primitives [1, - 2, 3] 22050 [''speed_change'' \<mapsto> PyNum 1] = [1, - 2, 3]
   \<and> process_effects failing_primitives [1, - 2, 3] 22050
        [''robot_voice'' \<mapsto> PyBool True, ''robot_intensity'' \<mapsto> PyNum 0] = [1, - 2, 3]"
  using pipeline_identities [of 22050 failing_primitives "[1, - 2, 3]" Map.empty]
  by simp

text \<open>
  C7, as the code has it. A primitive whose body raises returns its input, so the
  pipeline goes on with the waveform it had before that stage; when the body of every
  enabled stage raises on the decoded waveform, the processed waveform is the decoded
  one. There is no status report: a successful response carries the effects dictionary
  exactly as requested.
\<close>

theorem stage_failures_absorbed:
  "(isl (stage_body P sr eff st a) \<longrightarrow>
      stage_primitive P sr eff st a = a
      \<and> compose_enabled P sr eff (st # rest) a = compose_enabled P sr eff rest a)
   \<and> ((\<forall>st\<in>set canonical_order. stage_enabled eff st \<longrightarrow> isl (stage_body P sr eff st w)) \<longrightarrow>
        process_effects P w sr eff = w)
   \<and> (apply_voice_effects processor temp_input r = Inr resp \<longrightarrow>
        effects_applied resp = effects_of_request r)"
proof (intro conjI impI)
  assume f: "isl (stage_body P sr eff st a)"
  then show "stage_primitive P sr eff st a = a" by (rule stage_failure_absorbed)
  then show "compose_enabled P sr eff (st # rest) a = compose_enabled P sr eff rest a"
    by (simp add: compose_enabled_Cons)
next
  assume "\<forall>st\<in>set canonical_order. stage_enabled eff st \<longrightarrow> isl (stage_body P sr eff st w)"
  then show "process_effects P w sr eff = w"
    by (simp only: process_effects_compose compose_enabled_all_fail)
next
  assume "apply_voice_effects processor temp_input r = Inr resp"
  then show "effects_applied resp = effects_of_request r"
    by (auto simp: apply_voice_effects_def Let_def split: option.splits sum.splits)
qed

lemma sample_effects_stages:
  "stage_enabled (effects_of_request sample_request) st \<longleftrightarrow> st = PitchShift"
  by (cases st)
    (simp_all add: effects_of_request_def sample_request_def key_differs_def key_true_def)

theorem stage_failures_absorbed_witness:
  "isl (stage_body failing_primitives 22050 (effects_of_request sample_request) PitchShift [1, 2, 3])
   \<and> stage_primitive failing_primitives 22050 (effects_of_request sample_request) PitchShift [1, 2, 3]
       = [1, 2, 3]
   \<and> process_effects failing_primitives [1, 2, 3] 22050 (effects_of_request sample_request) = [1, 2, 3]"
  using stage_failures_absorbed [of failing_primitives 22050 "effects_of_request sample_request"
      PitchShift "[1, 2, 3]" "[]" "[1, 2, 3]"]
  by (simp add: sample_effects_stages failing_primitives_def)

text \<open>
  The claim as worded fails on a request for a pitch shift of five semitones whose
  pitch-shift primitive raises: the processed waveform is the decoded one, yet the response
  lists \<open>pitch_shift: 5\<close> among the effects, marks nothing as skipped, and its list of
  effects is not empty.
\<close>

theorem status_report_counterexample:
  "validate_request sample_request = None
   \<and> load_audio sample_decoders ''/tmp/in.wav'' = Inr ([1, 2, 3], 22050)
   \<and> isl (pitch_shift_lib failing_primitives [1, 2, 3] 22050 5)
   \<and> process_effects failing_primitives [1, 2, 3] 22050 (effects_of_request sample_request) = [1, 2, 3]
   \<and> apply_voice_effects (apply_effects sample_decoders failing_primitives sample_save)
        ''/tmp/in.wav'' sample_request
       = Inr \<lparr>output_path = ''/tmp/voice_effect_12345.wav'',
              effects_applied = effects_of_request sample_request\<rparr>
   \<and> effects_of_request sample_request ''pitch_shift'' = Some (PyNum 5)
   \<and> effects_of_request sample_request \<noteq> Map.empty"
  by (simp add: validate_request_def sample_request_def load_audio_def sample_decoders_def
      failing_primitives_def apply_voice_effects_def apply_effects_def sample_save_def
      process_effects_def effects_of_request_def key_differs_def key_true_def get_num_def
      apply_pitch_shift_def or_input_def)

section \<open>Properties of request validation\<close>

lemma validate_request_first_violation:
  "validate_request r = map_option (HTTPException 400) (first_violation r)"
  by (simp add: validate_request_def first_violation_def range_checks_def)

lemma range_checks_distinct: "distinct (map snd range_checks)"
  by (simp add: range_checks_def)

lemma validate_pitch_13:
  "filename r \<noteq> [] \<Longrightarrow> pitch_shift r = 13 \<Longrightarrow>
     validate_request r
       = Some (HTTPException 400 ''Pitch shift must be between -12 and +12 semitones'')"
  by (simp add: validate_request_def)

lemma validate_pitch_12:
  "validate_request r = None \<Longrightarrow> validate_request (r\<lparr>pitch_shift := 12\<rparr>) = None"
  by (simp add: validate_request_def split: if_splits)

lemma validate_blocks:
  "validate_request r = Some e \<Longrightarrow> apply_voice_effects processor temp_input r = Inl e"
  by (simp add: apply_voice_effects_def)

text \<open>
  C5. Validation reports the first violated constraint of the fixed order, and only that
  one; the messages of the constraints are pairwise different, so the message names the
  field. An uploaded request with a pitch shift of 13 is rejected with the pitch-shift
  message whatever its other fields are, a valid request stays valid with a pitch shift
  of 12, and a rejected request never reaches the processor.
\<close>

theorem validation_fail_fast:
  "validate_request r = map_option (HTTPException 400) (first_violation r)
   \<and> distinct (map snd range_checks)
   \<and> (filename r \<noteq> [] \<and> pitch_shift r = 13 \<longrightarrow>
        validate_request r
          = Some (HTTPException 400 ''Pitch shift must be between -12 and +12 semitones''))
   \<and> (validate_request r = None \<longrightarrow> validate_request (r\<lparr>pitch_shift := 12\<rparr>) = None)
   \<and> (validate_request r = Some e \<longrightarrow> apply_voice_effects processor temp_input r = Inl e)"
  using validate_request_first_violation range_checks_distinct validate_pitch_13
    validate_pitch_12 validate_blocks
  by blast

theorem validation_fail_fast_witness:
  "validate_request (sample_request\<lparr>pitch_shift := 13, echo_decay := 5\<rparr>)
     = Some (HTTPException 400 ''Pitch shift must be between -12 and +12 semitones'')
   \<and> apply_voice_effects (apply_effects sample_decoders failing_primitives sample_save)
        ''/tmp/in.wav'' (sample_request\<lparr>pitch_shift := 13, echo_decay := 5\<rparr>)
       = Inl (HTTPException 400 ''Pitch shift must be between -12 and +12 semitones'')
   \<and> validate_request sample_request = None
   \<and> validate_request (sample_request\<lparr>pitch_shift := 12\<rparr>) = None"
  using validation_fail_fast [of "sample_request\<lparr>pitch_shift := 13, echo_decay := 5\<rparr>"
      "HTTPException 400 ''Pitch shift must be between -12 and +12 semitones''"
      "apply_effects sample_decoders failing_primitives sample_save" "''/tmp/in.wav''"]
    validation_fail_fast [of sample_request]
  by (simp add: sample_request_def validate_request_def)

section \<open>Properties of decoding\<close>

lemma exc_chain_during: "exc_chain (during handled e) = exc_chain e @ exc_chain handled"
  by (induction handled e rule: during.induct) simp_all

lemma during_type: "exc_type (during handled e) = exc_type e"
  by (induction handled e rule: during.induct) simp_all

lemma during_msg: "exc_msg (during handled e) = exc_msg e"
  by (induction handled e rule: during.induct) simp_all

lemma load_audio_primary:
  "librosa_load D p None True = Inr r \<Longrightarrow> load_audio D p = Inr r"
  by (cases r) (simp add: load_audio_def)

lemma load_audio_both_fail:
  "librosa_load D p None True = Inl e1 \<Longrightarrow> from_file D p = Inl e2 \<Longrightarrow>
     load_audio D p = Inl (during e1 e2)"
  by (simp add: load_audio_def)

lemma load_audio_fallback:
  "librosa_load D p None True = Inl e1 \<Longrightarrow> from_file D p = Inr seg \<Longrightarrow>
     load_audio D p =
       Inr (map (\<lambda>x. real_of_int x
                       / (if sample_width (set_channels D 1 seg) = 2 then 32768 else 2147483648))
              (samples (set_channels D 1 seg)),
            frame_rate (set_channels D 1 seg))"
  by (simp add: load_audio_def Let_def)

lemma load_audio_safe_primary:
  "librosa_load D p t True = Inr r \<Longrightarrow> load_audio_safe D p t = Inr r"
  by (cases r) (simp add: load_audio_safe_def)

lemma load_audio_safe_both_fail:
  "librosa_load D p t True = Inl e1 \<Longrightarrow> from_file D p = Inl e2 \<Longrightarrow>
     load_audio_safe D p t
       = Inl (PyExc ''Exception'' (''Cannot load audio file: '' @ exc_msg e2)
                (Some (during e1 e2)))"
  by (simp add: load_audio_safe_def safe_fallback_def)

lemma load_audio_safe_native:
  "librosa_load D p t True = Inl e1 \<Longrightarrow> from_file D p = Inr seg \<Longrightarrow>
   safe_samples seg = Inr a \<Longrightarrow> t = None \<or> t = Some 0 \<or> t = Some (frame_rate seg) \<Longrightarrow>
     load_audio_safe D p t = Inr (a, frame_rate seg)"
  by (auto simp: load_audio_safe_def safe_fallback_def Let_def)

lemma load_audio_safe_target:
  "librosa_load D p (Some target) True = Inl e1 \<Longrightarrow> from_file D p = Inr seg \<Longrightarrow>
   safe_samples seg = Inr a \<Longrightarrow> target \<noteq> 0 \<Longrightarrow> target \<noteq> frame_rate seg \<Longrightarrow>
   resample D a (frame_rate seg) target = Inr a' \<Longrightarrow>
     load_audio_safe D p (Some target) = Inr (a', target)"
  by (simp add: load_audio_safe_def safe_fallback_def Let_def)

lemma safe_samples_mono:
  "channels seg = 1 \<Longrightarrow> sample_width seg = 2 \<Longrightarrow>
     safe_samples seg = Inr (map (\<lambda>x. real_of_int x / 32768) (samples seg))"
  by (simp add: safe_samples_def)

lemma safe_samples_stereo:
  "channels seg = 2 \<Longrightarrow> sample_width seg = 2 \<Longrightarrow>
     safe_samples seg = pair_means (map (\<lambda>x. real_of_int x / 32768) (samples seg))"
  by (simp add: safe_samples_def comp_def)

text \<open>
  C8, as the code has it. Both loaders try librosa first and touch the fallback only when
  librosa raises. When both raise, the effects loader raises the fallback's exception
  and load_audio_safe a new exception that quotes the fallback's message and has the
  fallback's exception as context; either way the context chain ends in the primary's
  exception, so both causes are carried. A waveform the effects loader returns is what
  librosa gives for \<^verbatim>\<open>sr=None, mono=True\<close>, or the scaled samples of the pydub
  segment after \<^verbatim>\<open>set_channels(1)\<close> at that segment's frame rate. A waveform
  load_audio_safe returns from the fallback holds the scaled samples of a one-channel
  segment, or the means of the sample pairs of a two-channel one, at the segment's frame
  rate when no other target rate is asked for, and resampled to the caller's target rate
  otherwise.
\<close>

theorem decode_fallback_order:
  "(librosa_load D p None True = Inr r \<longrightarrow>
      load_audio D p = Inr r \<and> load_audio (D\<lparr>from_file := ff\<rparr>) p = Inr r)
   \<and> (librosa_load D p None True = Inl primary_err \<and> from_file D p = Inl fallback_err \<longrightarrow>
        load_audio D p = Inl (during primary_err fallback_err)
        \<and> exc_type (during primary_err fallback_err) = exc_type fallback_err
        \<and> exc_msg (during primary_err fallback_err) = exc_msg fallback_err
        \<and> exc_chain (during primary_err fallback_err)
            = exc_chain fallback_err @ exc_chain primary_err)
   \<and> (librosa_load D p None True = Inl primary_err \<and> from_file D p = Inr seg \<longrightarrow>
        load_audio D p =
          Inr (map (\<lambda>x. real_of_int x
                          / (if sample_width (set_channels D 1 seg) = 2 then 32768
                             else 2147483648))
                 (samples (set_channels D 1 seg)),
               frame_rate (set_channels D 1 seg)))
   \<and> (librosa_load D p t True = Inr r \<longrightarrow>
        load_audio_safe D p t = Inr r \<and> load_audio_safe (D\<lparr>from_file := ff\<rparr>) p t = Inr r)
   \<and> (librosa_load D p t True = Inl primary_err \<and> from_file D p = Inl fallback_err \<longrightarrow>
        load_audio_safe D p t
          = Inl (PyExc ''Exception'' (''Cannot load audio file: '' @ exc_msg fallback_err)
                   (Some (during primary_err fallback_err))))
   \<and> (librosa_load D p t True = Inl primary_err \<and> from_file D p = Inr seg
        \<and> safe_samples seg = Inr a
        \<and> (t = None \<or> t = Some 0 \<or> t = Some (frame_rate seg)) \<longrightarrow>
        load_audio_safe D p t = Inr (a, frame_rate seg))
   \<and> (librosa_load D p (Some target) True = Inl primary_err \<and> from_file D p = Inr seg
        \<and> safe_samples seg = Inr a \<and> target \<noteq> 0 \<and> target \<noteq> frame_rate seg
        \<and> resample D a (frame_rate seg) target = Inr a' \<longrightarrow>
        load_audio_safe D p (Some target) = Inr (a', target))
   \<and> (channels seg = 1 \<and> sample_width seg = 2 \<longrightarrow>
        safe_samples seg = Inr (map (\<lambda>x. real_of_int x / 32768) (samples seg)))
   \<and> (channels seg = 2 \<and> sample_width seg = 2 \<longrightarrow>
        safe_samples seg = pair_means (map (\<lambda>x. real_of_int x / 32768) (samples seg)))"
proof (intro conjI impI)
  assume ok: "librosa_load D p None True = Inr r"
  then show "load_audio D p = Inr r" by (rule load_audio_primary)
  from ok have "librosa_load (D\<lparr>from_file := ff\<rparr>) p None True = Inr r" by simp
  then show "load_audio (D\<lparr>from_file := ff\<rparr>) p = Inr r" by (rule load_audio_primary)
next
  assume "librosa_load D p None True = Inl primary_err \<and> from_file D p = Inl fallback_err"
  then show "load_audio D p = Inl (during primary_err fallback_err)"
    by (simp add: load_audio_both_fail)
  show "exc_type (during primary_err fallback_err) = exc_type fallback_err"
    by (rule during_type)
  show "exc_msg (during primary_err fallback_err) = exc_msg fallback_err"
    by (rule during_msg)
  show "exc_chain (during primary_err fallback_err)
            = exc_chain fallback_err @ exc_chain primary_err"
    by (rule exc_chain_during)
next
  assume "librosa_load D p None True = Inl primary_err \<and> from_file D p = Inr seg"
  then show "load_audio D p =
          Inr (map (\<lambda>x. real_of_int x
                          / (if sample_width (set_channels D 1 seg) = 2 then 32768
                             else 2147483648))
                 (samples (set_channels D 1 seg)),
               frame_rate (set_channels D 1 seg))"
    using load_audio_fallback by blast
next
  assume ok: "librosa_load D p t True = Inr r"
  then show "load_audio_safe D p t = Inr r" by (rule load_audio_safe_primary)
  from ok have "librosa_load (D\<lparr>from_file := ff\<rparr>) p t True = Inr r" by simp
  then show "load_audio_safe (D\<lparr>from_file := ff\<rparr>) p t = Inr r"
    by (rule load_audio_safe_primary)
next
  assume "librosa_load D p t True = Inl primary_err \<and> from_file D p = Inl fallback_err"
  then show "load_audio_safe D p t
          = Inl (PyExc ''Exception'' (''Cannot load audio file: '' @ exc_msg fallback_err)
                   (Some (during primary_err fallback_err)))"
    by (simp add: load_audio_safe_both_fail)
next
  assume "librosa_load D p t True = Inl primary_err \<and> from_file D p = Inr seg
        \<and> safe_samples seg = Inr a
        \<and> (t = None \<or> t = Some 0 \<or> t = Some (frame_rate seg))"
  then show "load_audio_safe D p t = Inr (a, frame_rate seg)"
    using load_audio_safe_native by blast
next
  assume "librosa_load D p (Some target) True = Inl primary_err \<and> from_file D p = Inr seg
        \<and> safe_samples seg = Inr a \<and> target \<noteq> 0 \<and> target \<noteq> frame_rate seg
        \<and> resample D a (frame_rate seg) target = Inr a'"
  then show "load_audio_safe D p (Some target) = Inr (a', target)"
    using load_audio_safe_target by blast
next
  assume "channels seg = 1 \<and> sample_width seg = 2"
  then show "safe_samples seg = Inr (map (\<lambda>x. real_of_int x / 32768) (samples seg))"
    by (simp add: safe_samples_mono)
next
  assume "channels seg = 2 \<and> sample_width seg = 2"
  then show "safe_samples seg = pair_means (map (\<lambda>x. real_of_int x / 32768) (samples seg))"
    by (simp add: safe_samples_stereo)
qed

theorem decode_fallback_order_witness:
  "load_audio sample_decoders ''a.wav'' = Inr ([1, 2, 3], 22050)
   \<and> load_audio broken_decoders ''a.wav''
       = Inl (PyExc ''CouldntDecodeError'' ''decoding failed''
                (Some (PyExc ''NoBackendError'' ''primary decoder failed'' None)))
   \<and> exc_chain (during (PyExc ''NoBackendError'' ''primary decoder failed'' None)
                   (PyExc ''CouldntDecodeError'' ''decoding failed'' None))
       = [(''CouldntDecodeError'', ''decoding failed''),
          (''NoBackendError'', ''primary decoder failed'')]
   \<and> load_audio_safe broken_decoders ''a.wav'' None
       = Inl (PyExc ''Exception'' ''Cannot load audio file: decoding failed''
                (Some (PyExc ''CouldntDecodeError'' ''decoding failed''
                         (Some (PyExc ''NoBackendError'' ''primary decoder failed'' None)))))
   \<and> load_audio fallback_decoders ''a.m4a'' = Inr ([1 / 2, - 1 / 2], 44100)
   \<and> load_audio_safe fallback_decoders ''a.m4a'' None = Inr ([1 / 2, - 1 / 2], 44100)
   \<and> load_audio_safe fallback_decoders ''a.m4a'' (Some 16000) = Inr ([1 / 2], 16000)"
  using
    decode_fallback_order [where D = sample_decoders and p = "''a.wav''"
      and r = "([1, 2, 3], 22050)"]
    decode_fallback_order [where D = broken_decoders and p = "''a.wav''" and t = None
      and primary_err = "PyExc ''NoBackendError'' ''primary decoder failed'' None"
      and fallback_err = "PyExc ''CouldntDecodeError'' ''decoding failed'' None"]
    decode_fallback_order [where D = fallback_decoders and p = "''a.m4a''" and t = None
      and primary_err = "PyExc ''NoBackendError'' ''primary decoder failed'' None"
      and seg = "\<lparr>channels = 1, sample_width = 2, frame_rate = 44100,
                   samples = [16384, - 16384]\<rparr>"
      and a = "[1 / 2, - 1 / 2]" and target = 16000 and a' = "[1 / 2]"]
  by (simp add: sample_decoders_def broken_decoders_def fallback_decoders_def
      load_audio_def load_audio_safe_def safe_fallback_def safe_samples_def)

text \<open>
  The claim as worded fails for load_audio_safe: a 44100 Hz file loaded with a target rate
  of 16000 comes back resampled to 16000 Hz, not at its native rate.
\<close>

theorem decode_counterexample:
  "librosa_load fallback_decoders ''a.m4a'' (Some 16000) True
     = Inl (PyExc ''NoBackendError'' ''primary decoder failed'' None)
   \<and> from_file fallback_decoders ''a.m4a''
       = Inr \<lparr>channels = 1, sample_width = 2, frame_rate = 44100, samples = [16384, - 16384]\<rparr>
   \<and> load_audio_safe fallback_decoders ''a.m4a'' (Some 16000) = Inr ([1 / 2], 16000)
   \<and> (16000 :: int) \<noteq> 44100"
  by (simp add: fallback_decoders_def load_audio_safe_def safe_fallback_def safe_samples_def)

end
